theory Spec2Isabelle
  imports Complex_Main "HOL-Library.Product_Lexorder"
begin

section \<open>CME detection pipeline: data model\<close>

text \<open>
  The development follows \<^verbatim>\<open>src/detection/cme_detector.py\<close> and
  \<^verbatim>\<open>src/processing/feature_engineering.py\<close>. Python floats are idealised as
  \<^typ>\<open>real\<close> (with a separate cell for NaN), numpy integer indices are \<^typ>\<open>int\<close>.
  Every \<^verbatim>\<open>raise\<close> of the source, and every exception of pandas, numpy and scikit-learn that the
  source can meet, is a value of \<open>error\<close>.
\<close>

datatype error =
    ValueError string
  | KeyError string
  | IndexError
  | TypeError
  | AttributeError
  | NotFittedError
  | LinAlgError

text \<open>
  A pandas cell: a string, a timestamp (nanoseconds since the epoch, as pandas stores it), a
  number, or a missing value (NaN, NaT). A frame is its ordered columns; its length is the
  length of its first column (all columns of a frame have the same length).
\<close>

datatype cell = Str string | Stamp int | Num real | NaN

type_synonym column = "cell list"
type_synonym dataframe = "(string \<times> column) list"

definition has_column :: "string \<Rightarrow> dataframe \<Rightarrow> bool" where
  "has_column c df = (map_of df c \<noteq> None)"

definition get_column :: "dataframe \<Rightarrow> string \<Rightarrow> error + column" where
  "get_column df c = (case map_of df c of None \<Rightarrow> Inl (KeyError c) | Some xs \<Rightarrow> Inr xs)"

definition len_df :: "dataframe \<Rightarrow> nat" where
  "len_df df = (case df of [] \<Rightarrow> 0 | (k, xs) # rest \<Rightarrow> length xs)"

text \<open>\<^verbatim>\<open>df[c] = xs\<close>: an existing column is replaced where it stands, a new one is appended.\<close>

fun set_column :: "string \<Rightarrow> column \<Rightarrow> dataframe \<Rightarrow> dataframe" where
  "set_column c xs [] = [(c, xs)]"
| "set_column c xs ((k, v) # rest) =
     (if k = c then (k, xs) # rest else (k, v) # set_column c xs rest)"

text \<open>Python and numpy indexing: a negative index counts from the end, out of range raises.\<close>

definition py_index :: "'a list \<Rightarrow> int \<Rightarrow> error + 'a" where
  "py_index xs i =
     (if 0 \<le> i \<and> i < int (length xs) then Inr (xs ! nat i)
      else if i < 0 \<and> - int (length xs) \<le> i then Inr (xs ! nat (int (length xs) + i))
      else Inl IndexError)"

text \<open>\<^verbatim>\<open>df.iloc[i]\<close>: the row as a series indexed by the column names.\<close>

definition iloc :: "dataframe \<Rightarrow> int \<Rightarrow> error + (string \<times> cell) list" where
  "iloc df i =
     (case py_index [0 ..< len_df df] i of
        Inl e \<Rightarrow> Inl e
      | Inr j \<Rightarrow> Inr (map (\<lambda>(k, xs). (k, xs ! j)) df))"

text \<open>\<^verbatim>\<open>series.get(key, default)\<close> and \<^verbatim>\<open>series[key]\<close>.\<close>

definition series_get :: "(string \<times> cell) list \<Rightarrow> string \<Rightarrow> cell \<Rightarrow> cell" where
  "series_get row key dflt = (case map_of row key of None \<Rightarrow> dflt | Some v \<Rightarrow> v)"

definition series_item :: "(string \<times> cell) list \<Rightarrow> string \<Rightarrow> error + cell" where
  "series_item row key = (case map_of row key of None \<Rightarrow> Inl (KeyError key) | Some v \<Rightarrow> Inr v)"

text \<open>\<^verbatim>\<open>x > t\<close> on a scalar cell: false on NaN, a type error on strings and timestamps.\<close>

fun cell_gt :: "cell \<Rightarrow> real \<Rightarrow> error + bool" where
  "cell_gt (Num v) t = Inr (v > t)"
| "cell_gt NaN t = Inr False"
| "cell_gt (Str s) t = Inl TypeError"
| "cell_gt (Stamp u) t = Inl TypeError"

text \<open>
  The library functions the pipeline calls (pandas, numpy, scipy, scikit-learn) that are not
  part of the repository are parameters of the model, collected in one record.
  The numpy generator is a position in a stream of variates: \<open>unit_variate\<close> are the
  variates of \<^verbatim>\<open>np.random.uniform(0, 1)\<close> (in \<open>[0, 1)\<close>), \<open>normal_variate\<close> the standard
  normal ones. \<open>strftime\<close> renders a timestamp with the format \<^verbatim>\<open>%Y%m%d_%H%M%S\<close>,
  \<open>parse_datetime\<close> is the string parser of \<^verbatim>\<open>pd.to_datetime\<close>, \<open>dayofyear\<close> the calendar
  day of a timestamp. The rolling kernels are those of \<^verbatim>\<open>Series.rolling(window,
  min_periods=1)\<close>, \<open>series_diff\<close> is \<^verbatim>\<open>Series.diff(periods)\<close>, \<open>welch\<close> is
  \<^verbatim>\<open>scipy.signal.welch(x, nperseg)\<close> and \<open>pinv\<close> is \<^verbatim>\<open>np.linalg.pinv\<close>. \<open>scaler_fit\<close>
  gives the attributes (mean, scale) of a \<^verbatim>\<open>StandardScaler\<close> fitted on a batch and
  \<open>scaler_transform\<close> applies them; \<open>fit_classifier\<close> and \<open>fit_novelty\<close> are the \<^verbatim>\<open>fit\<close>
  of the random forest and of the two novelty detectors (named as in the source).
\<close>

text \<open>
  A fitted scikit-learn estimator is an object with methods, each one a function of a scaled
  batch. \<^verbatim>\<open>decision_function\<close> and \<^verbatim>\<open>predict\<close> return one number for every row;
  \<^verbatim>\<open>predict_proba\<close> returns a matrix with one column for every class, kept here as the list
  of its columns. A method that the class of the estimator does not have is absent.
\<close>

type_synonym scorer = "real list list \<Rightarrow> error + real list"

type_synonym proba = "real list list \<Rightarrow> error + real list list"

record estimator =
  decision_function :: "scorer option"
  predict_proba :: "proba option"
  predict :: scorer

record lib =
  unit_variate :: "nat \<Rightarrow> real"
  normal_variate :: "nat \<Rightarrow> real"
  strftime :: "int \<Rightarrow> string"
  parse_datetime :: "string \<Rightarrow> int option"
  dayofyear :: "int \<Rightarrow> int"
  rolling_mean :: "nat \<Rightarrow> column \<Rightarrow> error + column"
  rolling_std :: "nat \<Rightarrow> column \<Rightarrow> error + column"
  rolling_quantile :: "nat \<Rightarrow> real \<Rightarrow> column \<Rightarrow> error + column"
  series_diff :: "nat \<Rightarrow> column \<Rightarrow> error + column"
  welch :: "column \<Rightarrow> nat \<Rightarrow> error + real list \<times> real list"
  pinv :: "real list list \<Rightarrow> error + real list list"
  scaler_fit :: "cell list list \<Rightarrow> error + real list \<times> real list"
  scaler_transform :: "real list \<times> real list \<Rightarrow> cell list list \<Rightarrow> error + real list list"
  fit_classifier :: "real list list \<Rightarrow> real list \<Rightarrow> error + estimator"
  fit_novelty :: "string \<Rightarrow> real list list \<Rightarrow> error + estimator"

definition random_uniform :: "lib \<Rightarrow> real \<Rightarrow> real \<Rightarrow> nat \<Rightarrow> real \<times> nat" where
  "random_uniform L low high s = (low + (high - low) * unit_variate L s, Suc s)"

definition random_normal :: "lib \<Rightarrow> real \<Rightarrow> real \<Rightarrow> nat \<Rightarrow> real \<times> nat" where
  "random_normal L loc scale s = (loc + scale * normal_variate L s, Suc s)"

section \<open>Event segmentation\<close>

subsection \<open>Grouping of detection indices\<close>

text \<open>
  \<^verbatim>\<open>_group_consecutive_detections(indices, max_gap)\<close>: the \<^verbatim>\<open>for i in range(1, len(indices))\<close>
  loop, with \<open>prev\<close> standing for \<^verbatim>\<open>indices[i-1]\<close>, \<open>groups\<close> and \<open>current_group\<close> the two
  accumulators of the source.
\<close>

fun group_loop :: "int \<Rightarrow> int \<Rightarrow> int list \<Rightarrow> int list list \<Rightarrow> int list \<Rightarrow> int list list" where
  "group_loop max_gap prev [] groups current_group = groups @ [current_group]"
| "group_loop max_gap prev (x # xs) groups current_group =
     (if x - prev \<le> max_gap
      then group_loop max_gap x xs groups (current_group @ [x])
      else group_loop max_gap x xs (groups @ [current_group]) [x])"

definition group_consecutive_detections :: "int list \<Rightarrow> int \<Rightarrow> int list list" where
  "group_consecutive_detections indices max_gap =
     (case indices of
        [] \<Rightarrow> []
      | i0 # rest \<Rightarrow> group_loop max_gap i0 rest [] [i0])"

text \<open>Every consecutive pair of a run differs by at most the gap.\<close>

fun within_gap :: "int \<Rightarrow> int list \<Rightarrow> bool" where
  "within_gap g (x # y # ys) = (y - x \<le> g \<and> within_gap g (y # ys))"
| "within_gap g _ = True"

text \<open>Adjacent runs are separated by more than the gap (so every run is maximal).\<close>

fun separated :: "int \<Rightarrow> int list list \<Rightarrow> bool" where
  "separated g (a # b # rest) = (hd b - last a > g \<and> separated g (b # rest))"
| "separated g _ = True"

definition nonempty :: "'a list \<Rightarrow> bool" where
  "nonempty xs = (xs \<noteq> [])"

subsection \<open>Event creation\<close>

datatype cme_type = halo | partial_halo | non_halo

record cme_event =
  ev_id :: string
  ev_timestamp :: int
  ev_type :: cme_type
  ev_velocity :: cell
  ev_width :: real
  ev_acceleration :: real
  ev_confidence :: real
  ev_source :: string
  ev_status :: string
  ev_latitude :: real
  ev_longitude :: real
  ev_magnitude :: real

text \<open>\<^verbatim>\<open>scores[indices]\<close>: numpy indexing by a list of positions.\<close>

fun take_indices :: "real list \<Rightarrow> int list \<Rightarrow> error + real list" where
  "take_indices scores [] = Inr []"
| "take_indices scores (i # is) =
     (case py_index scores i of
        Inl e \<Rightarrow> Inl e
      | Inr v \<Rightarrow> (case take_indices scores is of Inl e \<Rightarrow> Inl e | Inr vs \<Rightarrow> Inr (v # vs)))"

text \<open>\<^verbatim>\<open>np.argmax\<close>: the first position of the maximum; the empty array raises.\<close>

fun argmax_loop :: "real list \<Rightarrow> nat \<Rightarrow> nat \<Rightarrow> real \<Rightarrow> nat" where
  "argmax_loop [] k best_k best_v = best_k"
| "argmax_loop (y # ys) k best_k best_v =
     (if y > best_v then argmax_loop ys (Suc k) k y else argmax_loop ys (Suc k) best_k best_v)"

definition argmax :: "real list \<Rightarrow> error + nat" where
  "argmax xs = (case xs of [] \<Rightarrow> Inl (ValueError ''attempt to get argmax of an empty sequence'')
                | x # rest \<Rightarrow> Inr (argmax_loop rest 1 0 x))"

text \<open>Line 253: \<^verbatim>\<open>peak_idx = indices[np.argmax(scores[indices])]\<close>.\<close>

definition peak_index :: "real list \<Rightarrow> int list \<Rightarrow> error + int" where
  "peak_index scores indices =
     (case take_indices scores indices of
        Inl e \<Rightarrow> Inl e
      | Inr sub \<Rightarrow> (case argmax sub of Inl e \<Rightarrow> Inl e | Inr k \<Rightarrow> py_index indices (int k)))"

text \<open>
  The \<^verbatim>\<open>if\<close>/\<^verbatim>\<open>elif\<close>/\<^verbatim>\<open>else\<close> of lines 262 to 270. Python's \<^verbatim>\<open>and\<close> does not evaluate
  its second operand when the first is false. The width of the two narrower classes is
  drawn from the generator.
\<close>

definition py_and :: "error + bool \<Rightarrow> error + bool \<Rightarrow> error + bool" where
  "py_and a b = (case a of Inl e \<Rightarrow> Inl e | Inr x \<Rightarrow> (if x then b else Inr False))"

definition classify_cme :: "lib \<Rightarrow> cell \<Rightarrow> cell \<Rightarrow> nat \<Rightarrow> (error + cme_type \<times> real) \<times> nat" where
  "classify_cme L velocity proton_flux s =
     (case py_and (cell_gt velocity 800) (cell_gt proton_flux 2000) of
        Inl e \<Rightarrow> (Inl e, s)
      | Inr is_halo \<Rightarrow>
          if is_halo then (Inr (halo, 360), s)
          else (case py_and (cell_gt velocity 600) (cell_gt proton_flux 1500) of
             Inl e \<Rightarrow> (Inl e, s)
           | Inr is_partial \<Rightarrow>
               if is_partial
               then (let (w, s') = random_uniform L 120 359 s in (Inr (partial_halo, w), s'))
               else (let (w, s') = random_uniform L 20 119 s in (Inr (non_halo, w), s'))))"

text \<open>
  \<^verbatim>\<open>min(10, velocity / 100)\<close>: Python's \<^verbatim>\<open>min\<close> keeps its first argument unless the second
  is smaller, so a NaN velocity gives 10.
\<close>

fun magnitude_of :: "cell \<Rightarrow> error + real" where
  "magnitude_of (Num v) = Inr (min 10 (v / 100))"
| "magnitude_of NaN = Inr 10"
| "magnitude_of (Str s) = Inl TypeError"
| "magnitude_of (Stamp u) = Inl TypeError"

text \<open>
  \<^verbatim>\<open>peak_data["timestamp"].strftime(...)\<close>: a missing column is a key error, a string or a
  number has no \<^verbatim>\<open>strftime\<close>, and NaT refuses it.
\<close>

fun timestamp_of :: "cell \<Rightarrow> error + int" where
  "timestamp_of (Stamp t) = Inr t"
| "timestamp_of NaN = Inl (ValueError ''NaTType does not support strftime'')"
| "timestamp_of (Str s) = Inl AttributeError"
| "timestamp_of (Num v) = Inl AttributeError"

text \<open>
  \<^verbatim>\<open>_create_cme_event(features_df, scores, indices)\<close>. The generator position is returned
  also when the call raises. The dictionary literal is evaluated in the order it is
  written: identifier, acceleration, latitude, longitude, magnitude.
\<close>

definition create_cme_event ::
  "lib \<Rightarrow> dataframe \<Rightarrow> real list \<Rightarrow> int list \<Rightarrow> nat \<Rightarrow> (error + cme_event) \<times> nat" where
  "create_cme_event L features_df scores indices s =
     (case peak_index scores indices of
        Inl e \<Rightarrow> (Inl e, s)
      | Inr peak_idx \<Rightarrow>
     (case iloc features_df peak_idx of
        Inl e \<Rightarrow> (Inl e, s)
      | Inr peak_data \<Rightarrow>
     (let velocity = series_get peak_data ''velocity'' (Num 400);
          proton_flux = series_get peak_data ''proton_flux'' (Num 1000)
      in
     (case py_index scores peak_idx of
        Inl e \<Rightarrow> (Inl e, s)
      | Inr confidence \<Rightarrow>
     (case classify_cme L velocity proton_flux s of
        (Inl e, s1) \<Rightarrow> (Inl e, s1)
      | (Inr (cme_type, width), s1) \<Rightarrow>
     (case series_item peak_data ''timestamp'' of
        Inl e \<Rightarrow> (Inl e, s1)
      | Inr ts_cell \<Rightarrow>
     (case timestamp_of ts_cell of
        Inl e \<Rightarrow> (Inl e, s1)
      | Inr ts \<Rightarrow>
     (let (acceleration, s2) = random_normal L (- 5) 10 s1;
          (latitude, s3) = random_uniform L (- 90) 90 s2;
          (longitude, s4) = random_uniform L (- 180) 180 s3
      in
     (case magnitude_of velocity of
        Inl e \<Rightarrow> (Inl e, s4)
      | Inr magnitude \<Rightarrow>
         (Inr \<lparr> ev_id = ''SWIS_'' @ strftime L ts,
                ev_timestamp = ts,
                ev_type = cme_type,
                ev_velocity = velocity,
                ev_width = width,
                ev_acceleration = acceleration,
                ev_confidence = confidence,
                ev_source = ''swis'',
                ev_status = ''detected'',
                ev_latitude = latitude,
                ev_longitude = longitude,
                ev_magnitude = magnitude \<rparr>, s4))))))))))"

text \<open>
  The \<^verbatim>\<open>for group in event_groups\<close> loop shared by \<^verbatim>\<open>detect_cme_events\<close> and
  \<^verbatim>\<open>rule_based_detection\<close>, with \<open>events\<close> the list built so far.
\<close>

fun events_loop ::
  "lib \<Rightarrow> dataframe \<Rightarrow> real list \<Rightarrow> int list list \<Rightarrow> cme_event list \<Rightarrow> nat
   \<Rightarrow> (error + cme_event list) \<times> nat" where
  "events_loop L features_df scores [] events s = (Inr events, s)"
| "events_loop L features_df scores (grp # groups) events s =
     (case create_cme_event L features_df scores grp s of
        (Inl e, s') \<Rightarrow> (Inl e, s')
      | (Inr event_data, s') \<Rightarrow>
          events_loop L features_df scores groups (events @ [event_data]) s')"

text \<open>\<^verbatim>\<open>np.where(mask)[0]\<close>: the positions of the true entries, ascending.\<close>

definition np_where :: "bool list \<Rightarrow> int list" where
  "np_where flags = map int (filter (\<lambda>i. flags ! i) [0 ..< length flags])"

text \<open>
  Lines 186 to 203 of \<^verbatim>\<open>detect_cme_events\<close>: the segmentation of a score series over a
  feature table. The source compares the scores with the threshold and never compares the
  two lengths. The grouping is called with its default gap of 10.
\<close>

definition extract_events ::
  "lib \<Rightarrow> dataframe \<Rightarrow> real list \<Rightarrow> real \<Rightarrow> nat \<Rightarrow> (error + cme_event list) \<times> nat" where
  "extract_events L features_df final_scores confidence_threshold s =
     (let cme_mask = map (\<lambda>v. v > confidence_threshold) final_scores
      in if list_ex (\<lambda>b. b) cme_mask
         then events_loop L features_df final_scores
                (group_consecutive_detections (np_where cme_mask) 10) [] s
         else (Inr [], s))"

subsection \<open>Well-formed feature tables\<close>

text \<open>
  The tables the segmentation receives from the feature engineering: every column as long
  as the frame, a column of timestamps, and numbers in the velocity and proton flux columns
  where these columns are present.
\<close>

fun is_num :: "cell \<Rightarrow> bool" where
  "is_num (Num v) = True"
| "is_num c = False"

fun is_stamp :: "cell \<Rightarrow> bool" where
  "is_stamp (Stamp t) = True"
| "is_stamp c = False"

definition numeric_or_absent :: "string \<Rightarrow> dataframe \<Rightarrow> bool" where
  "numeric_or_absent c df = (case map_of df c of None \<Rightarrow> True | Some xs \<Rightarrow> list_all is_num xs)"

definition stamped :: "dataframe \<Rightarrow> bool" where
  "stamped df = (case map_of df ''timestamp'' of None \<Rightarrow> False | Some xs \<Rightarrow> list_all is_stamp xs)"

definition rectangular :: "dataframe \<Rightarrow> bool" where
  "rectangular df = list_all (\<lambda>kx. length (snd kx) = len_df df) df"

section \<open>Feature engineering\<close>

text \<open>
  \<^verbatim>\<open>FeatureEngineer\<close>: the three window lists read in \<^verbatim>\<open>__init__\<close>, with their defaults.
\<close>

record feature_engineer =
  moving_avg_windows :: "nat list"
  gradient_windows :: "nat list"
  statistical_windows :: "nat list"

definition default_feature_engineer :: feature_engineer where
  "default_feature_engineer =
     \<lparr> moving_avg_windows = [5, 10, 30, 60],
       gradient_windows = [1, 5, 15],
       statistical_windows = [60, 180, 360] \<rparr>"

definition and_then :: "error + 'a \<Rightarrow> ('a \<Rightarrow> error + 'b) \<Rightarrow> error + 'b" where
  "and_then m f = (case m of Inl e \<Rightarrow> Inl e | Inr x \<Rightarrow> f x)"

fun for_each :: "('a \<Rightarrow> error + 'b) \<Rightarrow> 'a list \<Rightarrow> error + 'b list" where
  "for_each f [] = Inr []"
| "for_each f (x # xs) =
     and_then (f x) (\<lambda>y. and_then (for_each f xs) (\<lambda>ys. Inr (y # ys)))"

text \<open>The decimal rendering of a window length inside a column name (an f-string).\<close>

fun string_of_nat :: "nat \<Rightarrow> string" where
  "string_of_nat n =
     (if n < 10 then [''0123456789'' ! n]
      else string_of_nat (n div 10) @ [''0123456789'' ! (n mod 10)])"

text \<open>
  A statement \<^verbatim>\<open>df[name] = expression(df)\<close>, and a sequence of such statements: each one
  reads the frame the earlier ones have extended.
\<close>

definition assign ::
  "string \<Rightarrow> (dataframe \<Rightarrow> error + column) \<Rightarrow> dataframe \<Rightarrow> error + dataframe" where
  "assign name expr df = and_then (expr df) (\<lambda>xs. Inr (set_column name xs df))"

fun assign_all ::
  "(string \<times> (dataframe \<Rightarrow> error + column)) list \<Rightarrow> dataframe \<Rightarrow> error + dataframe" where
  "assign_all [] df = Inr df"
| "assign_all ((name, expr) # rest) df = and_then (assign name expr df) (assign_all rest)"

text \<open>\<^verbatim>\<open>df[c].kernel(...)\<close>: a column of the frame passed to a kernel.\<close>

definition on_column ::
  "string \<Rightarrow> (column \<Rightarrow> error + column) \<Rightarrow> dataframe \<Rightarrow> error + column" where
  "on_column c kern df = and_then (get_column df c) kern"

subsection \<open>Elementwise arithmetic\<close>

text \<open>
  Arithmetic on two numeric cells; NaN propagates, strings and timestamps are type errors.
  The infinities of IEEE arithmetic are outside the model.
\<close>

fun cell_op2 :: "(real \<Rightarrow> real \<Rightarrow> real) \<Rightarrow> cell \<Rightarrow> cell \<Rightarrow> error + cell" where
  "cell_op2 f (Num a) (Num b) = Inr (Num (f a b))"
| "cell_op2 f NaN (Num b) = Inr NaN"
| "cell_op2 f (Num a) NaN = Inr NaN"
| "cell_op2 f NaN NaN = Inr NaN"
| "cell_op2 f x y = Inl TypeError"

definition series_op2 ::
  "(real \<Rightarrow> real \<Rightarrow> real) \<Rightarrow> column \<Rightarrow> column \<Rightarrow> error + column" where
  "series_op2 f xs ys = for_each (\<lambda>(x, y). cell_op2 f x y) (zip xs ys)"

fun cell_op1 :: "(real \<Rightarrow> real) \<Rightarrow> cell \<Rightarrow> error + cell" where
  "cell_op1 f (Num a) = Inr (Num (f a))"
| "cell_op1 f NaN = Inr NaN"
| "cell_op1 f x = Inl TypeError"

subsection \<open>Time features\<close>

text \<open>
  The \<^verbatim>\<open>.dt\<close> accessor exists on columns of timestamps only; NaT gives NaN.
\<close>

fun dt_cell :: "(int \<Rightarrow> int) \<Rightarrow> cell \<Rightarrow> error + cell" where
  "dt_cell f (Stamp t) = Inr (Num (real_of_int (f t)))"
| "dt_cell f NaN = Inr NaN"
| "dt_cell f x = Inl AttributeError"

definition hour_of :: "int \<Rightarrow> int" where
  "hour_of t = (t div 3600000000000) mod 24"

text \<open>\<^verbatim>\<open>df['timestamp'].diff().dt.total_seconds().fillna(0)\<close>, with \<open>prev\<close> the cell before.\<close>

fun time_delta_from :: "cell \<Rightarrow> column \<Rightarrow> error + column" where
  "time_delta_from prev [] = Inr []"
| "time_delta_from prev (c # cs) =
     (case c of
        Stamp t \<Rightarrow>
          and_then (time_delta_from c cs) (\<lambda>ds. Inr
            ((case prev of Stamp u \<Rightarrow> Num (real_of_int (t - u) / 1000000000) | x \<Rightarrow> Num 0) # ds))
      | NaN \<Rightarrow> and_then (time_delta_from c cs) (\<lambda>ds. Inr (Num 0 # ds))
      | x \<Rightarrow> Inl AttributeError)"

text \<open>\<^verbatim>\<open>np.sin(2 * np.pi * day_of_year / 365.25)\<close> and \<^verbatim>\<open>np.sqrt\<close>.\<close>

definition solar_cycle_phase :: "real \<Rightarrow> real" where
  "solar_cycle_phase d = sin (2 * pi * d / 365.25)"

definition np_sqrt :: "real \<Rightarrow> real" where
  "np_sqrt x = sqrt x"

declare solar_cycle_phase_def [code del]

declare np_sqrt_def [code del]

definition create_time_features :: "lib \<Rightarrow> dataframe \<Rightarrow> error + dataframe" where
  "create_time_features L df =
     assign_all
       [(''hour'', on_column ''timestamp'' (for_each (dt_cell hour_of))),
        (''day_of_year'', on_column ''timestamp'' (for_each (dt_cell (dayofyear L)))),
        (''solar_cycle_phase'',
           on_column ''day_of_year'' (for_each (cell_op1 solar_cycle_phase))),
        (''time_delta'', on_column ''timestamp'' (time_delta_from NaN))]
       df"

subsection \<open>Moving averages, gradients, statistical features\<close>

definition create_moving_averages ::
  "lib \<Rightarrow> feature_engineer \<Rightarrow> dataframe \<Rightarrow> error + dataframe" where
  "create_moving_averages L fe df =
     assign_all
       (concat (map (\<lambda>window.
          [(''proton_flux_ma_'' @ string_of_nat window,
              on_column ''proton_flux'' (rolling_mean L window)),
           (''electron_flux_ma_'' @ string_of_nat window,
              on_column ''electron_flux'' (rolling_mean L window)),
           (''alpha_flux_ma_'' @ string_of_nat window,
              on_column ''alpha_flux'' (rolling_mean L window)),
           (''velocity_ma_'' @ string_of_nat window,
              on_column ''velocity'' (rolling_mean L window)),
           (''temperature_ma_'' @ string_of_nat window,
              on_column ''temperature'' (rolling_mean L window)),
           (''magnetic_field_ma_'' @ string_of_nat window,
              on_column ''magnetic_field_magnitude'' (rolling_mean L window))])
          (moving_avg_windows fe)))
       df"

definition create_gradients ::
  "lib \<Rightarrow> feature_engineer \<Rightarrow> dataframe \<Rightarrow> error + dataframe" where
  "create_gradients L fe df =
     assign_all
       (concat (map (\<lambda>window.
          [(''proton_flux_grad_'' @ string_of_nat window,
              on_column ''proton_flux'' (series_diff L window)),
           (''electron_flux_grad_'' @ string_of_nat window,
              on_column ''electron_flux'' (series_diff L window)),
           (''alpha_flux_grad_'' @ string_of_nat window,
              on_column ''alpha_flux'' (series_diff L window)),
           (''velocity_grad_'' @ string_of_nat window,
              on_column ''velocity'' (series_diff L window)),
           (''temperature_grad_'' @ string_of_nat window,
              on_column ''temperature'' (series_diff L window)),
           (''magnetic_field_grad_'' @ string_of_nat window,
              on_column ''magnetic_field_magnitude'' (series_diff L window))])
          (gradient_windows fe)))
       df"

text \<open>
  The ratio reads the moving averages of the shortest window:
  \<^verbatim>\<open>min(self.moving_avg_windows)\<close> raises on an empty list.
\<close>

definition proton_electron_ratio :: "feature_engineer \<Rightarrow> dataframe \<Rightarrow> error + column" where
  "proton_electron_ratio fe df =
     (if moving_avg_windows fe = []
      then Inl (ValueError ''min() arg is an empty sequence'')
      else
        (let w = string_of_nat (Min (set (moving_avg_windows fe)))
         in and_then (get_column df (''proton_flux_ma_'' @ w)) (\<lambda>p.
            and_then (get_column df (''electron_flux_ma_'' @ w)) (\<lambda>e.
            series_op2 (\<lambda>a b. a / (b + 1 / 1000000)) p e))))"

definition create_statistical_features ::
  "lib \<Rightarrow> feature_engineer \<Rightarrow> dataframe \<Rightarrow> error + dataframe" where
  "create_statistical_features L fe df =
     assign_all
       (concat (map (\<lambda>window.
          [(''proton_flux_std_'' @ string_of_nat window,
              on_column ''proton_flux'' (rolling_std L window)),
           (''velocity_std_'' @ string_of_nat window,
              on_column ''velocity'' (rolling_std L window)),
           (''proton_electron_ratio_'' @ string_of_nat window, proton_electron_ratio fe),
           (''proton_flux_p95_'' @ string_of_nat window,
              on_column ''proton_flux'' (rolling_quantile L window (95 / 100))),
           (''velocity_p95_'' @ string_of_nat window,
              on_column ''velocity'' (rolling_quantile L window (95 / 100)))])
          (statistical_windows fe)))
       df"

subsection \<open>Spectral features\<close>

text \<open>
  \<^verbatim>\<open>Series.mean()\<close> skips missing values and is NaN when there is no value;
  \<^verbatim>\<open>Series.fillna(value)\<close> replaces the missing cells.
\<close>

fun numbers_of :: "column \<Rightarrow> error + real list" where
  "numbers_of [] = Inr []"
| "numbers_of (Num v # cs) = and_then (numbers_of cs) (\<lambda>vs. Inr (v # vs))"
| "numbers_of (NaN # cs) = numbers_of cs"
| "numbers_of (c # cs) = Inl TypeError"

definition mean_of :: "real list \<Rightarrow> real" where
  "mean_of vs = sum_list vs / real (length vs)"

definition column_mean :: "column \<Rightarrow> error + cell" where
  "column_mean xs =
     and_then (numbers_of xs) (\<lambda>vs. Inr (if vs = [] then NaN else Num (mean_of vs)))"

definition fillna :: "cell \<Rightarrow> column \<Rightarrow> column" where
  "fillna v xs = map (\<lambda>c. if c = NaN then v else c) xs"

definition broadcast :: "dataframe \<Rightarrow> cell \<Rightarrow> column" where
  "broadcast df v = replicate (len_df df) v"

text \<open>
  One round of the loop of \<^verbatim>\<open>create_spectral_features\<close>: with at least 64 rows the power
  spectral density of the mean-filled signal, its dominant frequency after the DC
  component, that frequency's power and the total power; below 64 rows three columns of
  zeros, and the signal is not read.
\<close>

definition set_spectral :: "string \<Rightarrow> real \<Rightarrow> real \<Rightarrow> real \<Rightarrow> dataframe \<Rightarrow> dataframe" where
  "set_spectral c dominant_freq dominant_power total_power df =
     set_column (c @ ''_total_power'') (broadcast df (Num total_power))
       (set_column (c @ ''_dominant_power'') (broadcast df (Num dominant_power))
         (set_column (c @ ''_dominant_freq'') (broadcast df (Num dominant_freq)) df))"

definition spectral_columns :: "lib \<Rightarrow> string \<Rightarrow> dataframe \<Rightarrow> error + dataframe" where
  "spectral_columns L c df =
     (if len_df df \<ge> 64
      then
        and_then (get_column df c) (\<lambda>xs.
        and_then (column_mean xs) (\<lambda>m.
        and_then (welch L (fillna m xs) (min 64 (len_df df div 4))) (\<lambda>(freqs, psd).
        and_then (argmax (tl psd)) (\<lambda>k.
        and_then (py_index freqs (int k + 1)) (\<lambda>dominant_freq.
        and_then (py_index psd (int k + 1)) (\<lambda>dominant_power.
          Inr (set_spectral c dominant_freq dominant_power (sum_list psd) df)))))))
      else Inr (set_spectral c 0 0 0 df))"

definition create_spectral_features :: "lib \<Rightarrow> dataframe \<Rightarrow> error + dataframe" where
  "create_spectral_features L df =
     and_then (spectral_columns L ''proton_flux'' df) (\<lambda>d1.
     and_then (spectral_columns L ''velocity'' d1) (\<lambda>d2.
     spectral_columns L ''magnetic_field_magnitude'' d2))"

subsection \<open>Anomaly features\<close>

text \<open>
  The rolling z-score of a column:
  \<^verbatim>\<open>(df[column] - rolling_mean) / (rolling_std + 1e-6)\<close> over a window of 60.
\<close>

definition zscore :: "lib \<Rightarrow> string \<Rightarrow> dataframe \<Rightarrow> error + column" where
  "zscore L c df =
     and_then (on_column c (rolling_mean L 60) df) (\<lambda>rmean.
     and_then (on_column c (rolling_std L 60) df) (\<lambda>rstd.
     and_then (get_column df c) (\<lambda>xs.
     and_then (series_op2 (\<lambda>a b. a - b) xs rmean) (\<lambda>num.
     and_then (for_each (cell_op1 (\<lambda>b. b + 1 / 1000000)) rstd) (\<lambda>den.
     series_op2 (\<lambda>a b. a / b) num den)))))"

definition flux_columns :: "string list" where
  "flux_columns = [''proton_flux'', ''electron_flux'', ''alpha_flux'']"

text \<open>Vectors and matrices as lists; \<^verbatim>\<open>np.cov\<close> of variables in rows, normalised by \<open>n - 1\<close>.\<close>

definition dot :: "real list \<Rightarrow> real list \<Rightarrow> real" where
  "dot u v = sum_list (map (\<lambda>(a, b). a * b) (zip u v))"

definition mat_vec :: "real list list \<Rightarrow> real list \<Rightarrow> real list" where
  "mat_vec m v = map (\<lambda>row. dot row v) m"

definition centered :: "real list \<Rightarrow> real list" where
  "centered xs = map (\<lambda>x. x - mean_of xs) xs"

definition np_cov :: "real list list \<Rightarrow> real list list" where
  "np_cov vars =
     map (\<lambda>x. map (\<lambda>y. dot (centered x) (centered y) / (real (length x) - 1)) vars) vars"

text \<open>Every cell a number: the values of a column without missing cells.\<close>

fun all_numbers :: "column \<Rightarrow> error + real list" where
  "all_numbers [] = Inr []"
| "all_numbers (Num v # cs) = and_then (all_numbers cs) (\<lambda>vs. Inr (v # vs))"
| "all_numbers (NaN # cs) = Inl LinAlgError"
| "all_numbers (c # cs) = Inl TypeError"

text \<open>The distance of one row: \<^verbatim>\<open>np.sqrt\<close> of a negative number is NaN.\<close>

definition mahalanobis :: "real list list \<Rightarrow> real list \<Rightarrow> real list \<Rightarrow> cell" where
  "mahalanobis inv_cov mean_vector row =
     (let diff = map (\<lambda>(a, b). a - b) (zip row mean_vector);
          q = dot diff (mat_vec inv_cov diff)
      in if q < 0 then NaN else Num (np_sqrt q))"

text \<open>
  The body of the \<^verbatim>\<open>try\<close>: the flux columns filled with their means, their covariance, its
  pseudo-inverse, and the distance of every row from the mean vector. A column of missing
  values only stays missing, and the pseudo-inverse of a matrix of NaN does not converge.
\<close>

definition mahalanobis_distances :: "lib \<Rightarrow> dataframe \<Rightarrow> error + column" where
  "mahalanobis_distances L df =
     and_then (for_each (get_column df) flux_columns) (\<lambda>cols.
     and_then (for_each column_mean cols) (\<lambda>means.
     and_then (for_each all_numbers (map (\<lambda>(m, xs). fillna m xs) (zip means cols))) (\<lambda>flux_data.
     and_then (pinv L (np_cov flux_data)) (\<lambda>inv_cov_matrix.
       Inr (map (\<lambda>i. mahalanobis inv_cov_matrix (map mean_of flux_data)
                        (map (\<lambda>xs. xs ! i) flux_data))
              [0 ..< len_df df])))))"

text \<open>
  Lines 146 to 163: the distances when the frame has more rows than flux columns and the
  computation raises nothing, a column of zeros otherwise.
\<close>

definition flux_mahalanobis_distance :: "lib \<Rightarrow> dataframe \<Rightarrow> column" where
  "flux_mahalanobis_distance L df =
     (if len_df df > length flux_columns
      then (case mahalanobis_distances L df of
              Inl e \<Rightarrow> broadcast df (Num 0)
            | Inr mahal_distances \<Rightarrow> mahal_distances)
      else broadcast df (Num 0))"

text \<open>
  The loop of lines 139 to 142: one z-score column for each of five columns, read from the
  frame before the \<^verbatim>\<open>try\<close> is entered, so that a column that is missing raises here.
\<close>

definition zscore_sources :: "string list" where
  "zscore_sources = [''proton_flux'', ''electron_flux'', ''alpha_flux'', ''velocity'', ''temperature'']"

definition zscore_columns :: "lib \<Rightarrow> dataframe \<Rightarrow> error + dataframe" where
  "zscore_columns L df = assign_all (map (\<lambda>c. (c @ ''_zscore'', zscore L c)) zscore_sources) df"

definition create_anomaly_features :: "lib \<Rightarrow> dataframe \<Rightarrow> error + dataframe" where
  "create_anomaly_features L df =
     and_then (zscore_columns L df)
       (\<lambda>d. Inr (set_column ''flux_mahalanobis_distance'' (flux_mahalanobis_distance L d) d))"

subsection \<open>The pipeline\<close>

text \<open>\<^verbatim>\<open>pd.to_datetime\<close> on a column: timestamps stay, strings are parsed, numbers are
  nanoseconds since the epoch (a fraction is cut off towards zero), missing values become
  NaT.\<close>

fun to_datetime_cell :: "lib \<Rightarrow> cell \<Rightarrow> error + cell" where
  "to_datetime_cell L (Stamp t) = Inr (Stamp t)"
| "to_datetime_cell L (Str s) =
     (case parse_datetime L s of
        None \<Rightarrow> Inl (ValueError ''Unknown datetime string format'')
      | Some t \<Rightarrow> Inr (Stamp t))"
| "to_datetime_cell L (Num v) = Inr (Stamp (if v < 0 then \<lceil>v\<rceil> else \<lfloor>v\<rfloor>))"
| "to_datetime_cell L NaN = Inr NaN"

definition to_datetime :: "lib \<Rightarrow> column \<Rightarrow> error + column" where
  "to_datetime L xs = for_each (to_datetime_cell L) xs"

text \<open>
  \<^verbatim>\<open>df.sort_values(c).reset_index(drop=True)\<close>: a new frame, the rows in ascending order of
  the column, missing values last. Rows of equal keys keep their order here; the quicksort
  that pandas uses by default may order them otherwise.
\<close>

fun sort_rank :: "cell \<Rightarrow> nat \<times> int" where
  "sort_rank (Stamp t) = (0, t)"
| "sort_rank c = (1, 0)"

definition sort_values :: "string \<Rightarrow> dataframe \<Rightarrow> error + dataframe" where
  "sort_values c df =
     and_then (get_column df c) (\<lambda>keys.
       Inr (map (\<lambda>(k, xs).
              (k, map (\<lambda>i. xs ! i) (sort_key (\<lambda>i. sort_rank (keys ! i)) [0 ..< length keys])))
            df))"

text \<open>The final pass: backward fill, forward fill, then zeros.\<close>

fun bfill :: "column \<Rightarrow> column" where
  "bfill [] = []"
| "bfill (c # cs) =
     (if c = NaN then (case bfill cs of [] \<Rightarrow> NaN | d # ds \<Rightarrow> d) else c) # bfill cs"

fun ffill_from :: "cell \<Rightarrow> column \<Rightarrow> column" where
  "ffill_from prev [] = []"
| "ffill_from prev (c # cs) =
     (if c = NaN then prev # ffill_from prev cs else c # ffill_from c cs)"

definition fill_missing :: "dataframe \<Rightarrow> dataframe" where
  "fill_missing df = map (\<lambda>(k, xs). (k, fillna (Num 0) (ffill_from NaN (bfill xs)))) df"

text \<open>
  Frames are objects: the store maps an object to its present value, and the caller's
  frame is the object \<open>r\<close>. \<^verbatim>\<open>engineer_features(df)\<close> assigns the converted timestamps to the
  caller's frame (line 173) before \<^verbatim>\<open>sort_values\<close> makes the first new frame (line 174);
  the six steps copy their argument, so their frames are values. The store is returned
  also when the call raises.
\<close>

type_synonym store = "nat \<Rightarrow> dataframe"

definition engineer_steps :: "lib \<Rightarrow> feature_engineer \<Rightarrow> dataframe \<Rightarrow> error + dataframe" where
  "engineer_steps L fe df =
     and_then (create_time_features L df) (\<lambda>d1.
     and_then (create_moving_averages L fe d1) (\<lambda>d2.
     and_then (create_gradients L fe d2) (\<lambda>d3.
     and_then (create_statistical_features L fe d3) (\<lambda>d4.
     and_then (create_spectral_features L d4) (\<lambda>d5.
     and_then (create_anomaly_features L d5) (\<lambda>d6.
       Inr (fill_missing d6)))))))"

definition engineer_features ::
  "lib \<Rightarrow> feature_engineer \<Rightarrow> store \<Rightarrow> nat \<Rightarrow> store \<times> (error + dataframe)" where
  "engineer_features L fe st r =
     (if has_column ''timestamp'' (st r)
      then
        (case and_then (get_column (st r) ''timestamp'') (to_datetime L) of
           Inl e \<Rightarrow> (st, Inl e)
         | Inr ts \<Rightarrow>
             (let st' = st (r := set_column ''timestamp'' ts (st r))
              in (st', and_then (sort_values ''timestamp'' (st' r)) (engineer_steps L fe))))
      else (st, engineer_steps L fe (st r)))"

section \<open>The detector\<close>

text \<open>
  \<^verbatim>\<open>CMEDetector\<close>: the thresholds of the configuration, the feature engineer, the
  dictionary of models in its insertion order, the scaler (unfitted, or its fitted
  attributes), the trained flag and the list of feature columns.
\<close>

datatype model = Unfitted | Fitted estimator

record detector =
  thresholds :: "string \<Rightarrow> real option"
  engineer :: feature_engineer
  models :: "(string \<times> model) list"
  scaler :: "(real list \<times> real list) option"
  is_trained :: bool
  feature_columns :: "string list"

definition new_detector :: "(string \<Rightarrow> real option) \<Rightarrow> detector" where
  "new_detector th =
     \<lparr> thresholds = th,
       engineer = default_feature_engineer,
       models = [(''isolation_forest'', Unfitted), (''svm'', Unfitted),
                 (''random_forest'', Unfitted)],
       scaler = None,
       is_trained = False,
       feature_columns = [] \<rparr>"

text \<open>\<^verbatim>\<open>self.thresholds.get(key, default)\<close>.\<close>

definition get_threshold :: "detector \<Rightarrow> string \<Rightarrow> real \<Rightarrow> real" where
  "get_threshold det key dflt = (case thresholds det key of None \<Rightarrow> dflt | Some v \<Rightarrow> v)"

definition get_feature_importance_columns :: "string list" where
  "get_feature_importance_columns =
     [''proton_flux'', ''electron_flux'', ''alpha_flux'',
      ''velocity'', ''temperature'', ''magnetic_field_magnitude'',
      ''proton_flux_ma_5'', ''proton_flux_ma_10'', ''proton_flux_ma_30'',
      ''velocity_ma_5'', ''velocity_ma_10'', ''velocity_ma_30'',
      ''proton_flux_grad_1'', ''proton_flux_grad_5'', ''velocity_grad_1'',
      ''proton_flux_std_60'', ''velocity_std_60'',
      ''proton_flux_zscore'', ''velocity_zscore'',
      ''flux_mahalanobis_distance'',
      ''proton_electron_ratio_60'']"

text \<open>
  \<^verbatim>\<open>available_columns\<close> of line 77, once line 76 has assigned the column list: the feature
  columns that the frame has.
\<close>

definition training_columns :: "dataframe \<Rightarrow> string list" where
  "training_columns df = filter (\<lambda>c. has_column c df) get_feature_importance_columns"

text \<open>\<^verbatim>\<open>features_df[columns].values\<close>, for columns of the frame: the rows of the batch.\<close>

definition values_of :: "dataframe \<Rightarrow> string list \<Rightarrow> cell list list" where
  "values_of df cs =
     map (\<lambda>i. map (\<lambda>c. (case map_of df c of None \<Rightarrow> NaN | Some xs \<Rightarrow> xs ! i)) cs)
       [0 ..< len_df df]"

subsection \<open>Training\<close>

text \<open>
  \<^verbatim>\<open>X_scaled[labels == 0]\<close>: a boolean mask of another length than the batch is an index
  error.
\<close>

definition normal_rows :: "real list list \<Rightarrow> real list \<Rightarrow> error + real list list" where
  "normal_rows X_scaled labels =
     (if length labels \<noteq> length X_scaled then Inl IndexError
      else Inr (map fst (filter (\<lambda>(row, l). l = 0) (zip X_scaled labels))))"

text \<open>
  One round of the training loop (lines 88 to 100): the classifier is fitted on the whole
  batch, a novelty detector on the rows labelled 0, and is left as it was when there is
  no such row.
\<close>

definition fit_model ::
  "lib \<Rightarrow> real list list \<Rightarrow> real list \<Rightarrow> string \<Rightarrow> model \<Rightarrow> error + model" where
  "fit_model L X_scaled labels name m =
     (if name = ''random_forest''
      then and_then (fit_classifier L X_scaled labels) (\<lambda>s. Inr (Fitted s))
      else
        and_then (normal_rows X_scaled labels) (\<lambda>normal_data.
          if length normal_data > 0
          then and_then (fit_novelty L name normal_data) (\<lambda>s. Inr (Fitted s))
          else Inr m))"

text \<open>The loop: the models fitted before a failure stay fitted.\<close>

fun train_loop ::
  "lib \<Rightarrow> real list list \<Rightarrow> real list \<Rightarrow> (string \<times> model) list
   \<Rightarrow> (string \<times> model) list \<times> (error + unit)" where
  "train_loop L X_scaled labels [] = ([], Inr ())"
| "train_loop L X_scaled labels ((name, m) # rest) =
     (case fit_model L X_scaled labels name m of
        Inl e \<Rightarrow> ((name, m) # rest, Inl e)
      | Inr m' \<Rightarrow>
          (case train_loop L X_scaled labels rest of
             (rest', res) \<Rightarrow> ((name, m') # rest', res)))"

text \<open>
  \<^verbatim>\<open>train_models(features_df, labels)\<close>: the detector after the call, and whether the call
  raised. The column list is assigned first (line 76), the scaler is refitted in place
  (line 85), the flag is set last (line 102). \<^verbatim>\<open>StandardScaler.fit\<close> resets the fitted
  attributes before it reads the batch, so a fit that raises leaves the scaler unfitted.
\<close>

definition train_models ::
  "lib \<Rightarrow> detector \<Rightarrow> dataframe \<Rightarrow> real list \<Rightarrow> detector \<times> (error + unit)" where
  "train_models L det features_df labels =
     (let det1 = det \<lparr> feature_columns := get_feature_importance_columns \<rparr>;
          available_columns = filter (\<lambda>c. has_column c features_df) (feature_columns det1)
      in if available_columns = []
         then (det1, Inl (ValueError ''No feature columns available for training''))
         else
           (case scaler_fit L (values_of features_df available_columns) of
              Inl e \<Rightarrow> (det1 \<lparr> scaler := None \<rparr>, Inl e)
            | Inr fitted \<Rightarrow>
                (let det2 = det1 \<lparr> scaler := Some fitted \<rparr>
                 in case scaler_transform L fitted (values_of features_df available_columns) of
                      Inl e \<Rightarrow> (det2, Inl e)
                    | Inr X_scaled \<Rightarrow>
                        (case train_loop L X_scaled labels (models det2) of
                           (ms, Inl e) \<Rightarrow> (det2 \<lparr> models := ms \<rparr>, Inl e)
                         | (ms, Inr u) \<Rightarrow>
                             (det2 \<lparr> models := ms, is_trained := True \<rparr>, Inr ())))))"

subsection \<open>Prediction\<close>

text \<open>
  One round of the prediction loop (lines 116 to 128). A model that was never fitted
  raises scikit-learn's \<^verbatim>\<open>NotFittedError\<close> from the method that is called. For the entry
  named \<^verbatim>\<open>random_forest\<close> the probability is column 1 of \<^verbatim>\<open>predict_proba\<close>, and
  \<^verbatim>\<open>[:, 1]\<close> raises \<^verbatim>\<open>IndexError\<close> on a matrix of fewer than two columns; an estimator
  without \<^verbatim>\<open>predict_proba\<close> is asked to \<^verbatim>\<open>predict\<close>. For the other entries the scores of
  \<^verbatim>\<open>decision_function\<close> are normalised and inverted; the minimum of an empty array raises.
\<close>

definition model_probability :: "real list list \<Rightarrow> string \<times> model \<Rightarrow> error + real list" where
  "model_probability X_scaled nm =
     (case snd nm of
        Unfitted \<Rightarrow> Inl NotFittedError
      | Fitted est \<Rightarrow>
          if fst nm = ''random_forest''
          then (case predict_proba est of
                  Some p \<Rightarrow> and_then (p X_scaled) (\<lambda>columns. py_index columns 1)
                | None \<Rightarrow> predict est X_scaled)
          else
            (case decision_function est of
               None \<Rightarrow> Inl AttributeError
             | Some s \<Rightarrow>
                 and_then (s X_scaled) (\<lambda>scores.
                   if scores = []
                   then Inl (ValueError ''zero-size array to reduction operation minimum'')
                   else Inr (map (\<lambda>x. 1 - (x - Min (set scores))
                                          / (Max (set scores) - Min (set scores) + 1 / 1000000))
                               scores))))"

text \<open>\<^verbatim>\<open>np.mean(predictions, axis=0)\<close>: arrays of one length, averaged position by position.\<close>

definition np_mean_axis0 :: "real list list \<Rightarrow> error + real list" where
  "np_mean_axis0 predictions =
     (case predictions of
        [] \<Rightarrow> Inr []
      | p # ps \<Rightarrow>
          if list_all (\<lambda>q. length q = length p) ps
          then Inr (map (\<lambda>i. mean_of (map (\<lambda>q. q ! i) predictions)) [0 ..< length p])
          else Inl (ValueError ''inhomogeneous shape''))"

definition predict_cme_probability :: "lib \<Rightarrow> detector \<Rightarrow> dataframe \<Rightarrow> error + real list" where
  "predict_cme_probability L det features_df =
     (if \<not> is_trained det
      then Inl (ValueError ''Models must be trained before prediction'')
      else
        (let available_columns =
               filter (\<lambda>c. has_column c features_df) (feature_columns det)
         in case scaler det of
              None \<Rightarrow> Inl NotFittedError
            | Some fitted \<Rightarrow>
                and_then (scaler_transform L fitted (values_of features_df available_columns))
                  (\<lambda>X_scaled.
                and_then (for_each (model_probability X_scaled) (models det))
                  np_mean_axis0)))"

subsection \<open>Threshold rules and detection\<close>

text \<open>
  One criterion of \<^verbatim>\<open>apply_threshold_rules\<close>: the weight where the column exceeds its
  threshold, nothing when the column is absent. The sum is taken in place, so a score array
  of length 1 is broadcast to the length of the accumulator and no other length fits.
\<close>

definition criterion :: "dataframe \<Rightarrow> string \<Rightarrow> real \<Rightarrow> real \<Rightarrow> real list \<Rightarrow> error + real list" where
  "criterion df c thr weight rule_based_scores =
     (case map_of df c of
        None \<Rightarrow> Inr rule_based_scores
      | Some xs \<Rightarrow>
          and_then (for_each (\<lambda>x. cell_gt x thr) xs) (\<lambda>bs.
            if length bs = length rule_based_scores
            then Inr (map (\<lambda>(b, v). v + (if b then weight else 0)) (zip bs rule_based_scores))
            else if length bs = 1
            then Inr (map (\<lambda>v. v + (if hd bs then weight else 0)) rule_based_scores)
            else Inl (ValueError ''operands could not be broadcast together'')))"

text \<open>
  The combination of line 167 follows numpy's broadcasting: arrays of one length are
  combined position by position, an array of length 1 is stretched to the other one.
\<close>

definition apply_threshold_rules ::
  "detector \<Rightarrow> dataframe \<Rightarrow> real list \<Rightarrow> error + real list" where
  "apply_threshold_rules det features_df ml_probabilities =
     and_then (criterion features_df ''velocity''
                 (get_threshold det ''velocity_threshold'' 500) (3 / 10)
                 (replicate (len_df features_df) 0)) (\<lambda>s1.
     and_then (criterion features_df ''proton_flux''
                 (get_threshold det ''flux_threshold'' 1200) (3 / 10) s1) (\<lambda>s2.
     and_then (criterion features_df ''temperature''
                 (get_threshold det ''temperature_threshold'' 200000) (2 / 10) s2) (\<lambda>s3.
     and_then (criterion features_df ''magnetic_field_magnitude''
                 (get_threshold det ''magnetic_field_threshold'' 10) (2 / 10) s3) (\<lambda>rule_based_scores.
       if length ml_probabilities = length rule_based_scores
       then Inr (map (\<lambda>(m, v). max 0 (min 1 (7 / 10 * m + 3 / 10 * v)))
                   (zip ml_probabilities rule_based_scores))
       else if length ml_probabilities = 1
       then Inr (map (\<lambda>v. max 0 (min 1 (7 / 10 * hd ml_probabilities + 3 / 10 * v)))
                   rule_based_scores)
       else if length rule_based_scores = 1
       then Inr (map (\<lambda>m. max 0 (min 1 (7 / 10 * m + 3 / 10 * hd rule_based_scores)))
                   ml_probabilities)
       else Inl (ValueError ''operands could not be broadcast together'')))))"

text \<open>
  The mask of \<^verbatim>\<open>rule_based_detection\<close>: \<^verbatim>\<open>features_df.get(c, 0) > threshold\<close> is a column of
  booleans, or one boolean when the column is absent; \<^verbatim>\<open>&\<close> evaluates both sides.
\<close>

datatype mask = Scalar bool | Elementwise "bool list"

definition frame_get_gt :: "dataframe \<Rightarrow> string \<Rightarrow> real \<Rightarrow> error + mask" where
  "frame_get_gt df c thr =
     (case map_of df c of
        None \<Rightarrow> Inr (Scalar (0 > thr))
      | Some xs \<Rightarrow> and_then (for_each (\<lambda>x. cell_gt x thr) xs) (\<lambda>bs. Inr (Elementwise bs)))"

fun mask_and :: "mask \<Rightarrow> mask \<Rightarrow> mask" where
  "mask_and (Scalar a) (Scalar b) = Scalar (a \<and> b)"
| "mask_and (Scalar a) (Elementwise bs) = Elementwise (map (\<lambda>b. a \<and> b) bs)"
| "mask_and (Elementwise as) (Scalar b) = Elementwise (map (\<lambda>a. a \<and> b) as)"
| "mask_and (Elementwise as) (Elementwise bs) = Elementwise (map (\<lambda>(a, b). a \<and> b) (zip as bs))"

fun mask_any :: "mask \<Rightarrow> bool" where
  "mask_any (Scalar b) = b"
| "mask_any (Elementwise bs) = list_ex (\<lambda>b. b) bs"

fun mask_where :: "mask \<Rightarrow> int list" where
  "mask_where (Scalar b) = (if b then [0] else [])"
| "mask_where (Elementwise bs) = np_where bs"

text \<open>
  The world a detection runs in: the frames of the caller and the position of the numpy
  generator. \<^verbatim>\<open>rule_based_detection(particle_df)\<close> scores every row 0.8.
\<close>

record world =
  frames :: store
  generator :: nat

definition rule_based_detection ::
  "lib \<Rightarrow> detector \<Rightarrow> world \<Rightarrow> nat \<Rightarrow> (error + cme_event list) \<times> world" where
  "rule_based_detection L det w r =
     (case engineer_features L (engineer det) (frames w) r of
        (st, Inl e) \<Rightarrow> (Inl e, w \<lparr> frames := st \<rparr>)
      | (st, Inr features_df) \<Rightarrow>
          (case and_then (frame_get_gt features_df ''velocity''
                            (get_threshold det ''velocity_threshold'' 500)) (\<lambda>a.
                and_then (frame_get_gt features_df ''proton_flux''
                            (get_threshold det ''flux_threshold'' 1200)) (\<lambda>b.
                Inr (mask_and a b))) of
             Inl e \<Rightarrow> (Inl e, w \<lparr> frames := st \<rparr>)
           | Inr cme_mask \<Rightarrow>
               if mask_any cme_mask
               then
                 (case events_loop L features_df (replicate (len_df features_df) (8 / 10))
                         (group_consecutive_detections (mask_where cme_mask) 10) []
                         (generator w) of
                    (res, s) \<Rightarrow> (res, \<lparr> frames = st, generator = s \<rparr>))
               else (Inr [], w \<lparr> frames := st \<rparr>)))"

definition detect_cme_events ::
  "lib \<Rightarrow> detector \<Rightarrow> world \<Rightarrow> nat \<Rightarrow> (error + cme_event list) \<times> world" where
  "detect_cme_events L det w r =
     (if \<not> is_trained det then rule_based_detection L det w r
      else
        (case engineer_features L (engineer det) (frames w) r of
           (st, Inl e) \<Rightarrow> (Inl e, w \<lparr> frames := st \<rparr>)
         | (st, Inr features_df) \<Rightarrow>
             (case and_then (predict_cme_probability L det features_df)
                     (apply_threshold_rules det features_df) of
                Inl e \<Rightarrow> (Inl e, w \<lparr> frames := st \<rparr>)
              | Inr final_scores \<Rightarrow>
                  (case extract_events L features_df final_scores
                          (get_threshold det ''confidence_threshold'' (7 / 10)) (generator w) of
                     (res, s) \<Rightarrow> (res, \<lparr> frames = st, generator = s \<rparr>)))))"

section \<open>Reference definitions\<close>

text \<open>
  The Mahalanobis distance as the documentation states it, to compare with the code: the
  flux vectors of the rows, the quadratic form of a row's deviation from the mean vector
  under a matrix \<open>P\<close>, and its square root, which is not a number where the form is
  negative. A flux column is filled with the mean of its numbers before the covariance is
  taken; it is \<open>measured\<close> when it holds numbers and missing values only and at least one
  number.
\<close>

definition rows_of :: "real list list \<Rightarrow> nat \<Rightarrow> real list list" where
  "rows_of vars n = map (\<lambda>i. map (\<lambda>xs. xs ! i) vars) [0 ..< n]"

definition quadratic_form :: "real list list \<Rightarrow> real list \<Rightarrow> real list \<Rightarrow> real" where
  "quadratic_form P mu x =
     (let d = map (\<lambda>(a, b). a - b) (zip x mu) in dot d (mat_vec P d))"

definition mahalanobis_reference :: "real list list \<Rightarrow> real list \<Rightarrow> real list list \<Rightarrow> column" where
  "mahalanobis_reference P mu rows =
     map (\<lambda>x. if quadratic_form P mu x < 0 then NaN else Num (sqrt (quadratic_form P mu x))) rows"

definition fill_with_mean :: "column \<Rightarrow> real list" where
  "fill_with_mean xs =
     map (\<lambda>c. case c of Num v \<Rightarrow> v | x \<Rightarrow> mean_of (concat (map (\<lambda>c. case c of Num v \<Rightarrow> [v] | x \<Rightarrow> []) xs))) xs"

definition measured :: "column \<Rightarrow> bool" where
  "measured xs = (list_all (\<lambda>c. c = NaN \<or> is_num c) xs \<and> list_ex is_num xs)"

text \<open>The four Moore-Penrose conditions, on matrices as lists of rows.\<close>

definition mat_mul :: "real list list \<Rightarrow> real list list \<Rightarrow> real list list" where
  "mat_mul A B = map (\<lambda>row. map (\<lambda>j. dot row (map (\<lambda>r. r ! j) B)) [0 ..< length B]) A"

definition mat_transpose :: "real list list \<Rightarrow> real list list" where
  "mat_transpose A = map (\<lambda>j. map (\<lambda>r. r ! j) A) [0 ..< length A]"

definition is_pseudo_inverse :: "real list list \<Rightarrow> real list list \<Rightarrow> bool" where
  "is_pseudo_inverse A P =
     (mat_mul (mat_mul A P) A = A \<and> mat_mul (mat_mul P A) P = P
      \<and> mat_transpose (mat_mul A P) = mat_mul A P
      \<and> mat_transpose (mat_mul P A) = mat_mul P A)"

text \<open>
  What scikit-learn documents of a fitted classifier: it has \<^verbatim>\<open>predict_proba\<close>, and the
  matrix that \<^verbatim>\<open>predict_proba\<close> returns has one column for every class of the labels it was
  fitted on (the attribute \<^verbatim>\<open>classes_\<close>).
\<close>

definition proba_per_class :: "lib \<Rightarrow> bool" where
  "proba_per_class L =
     (\<forall>X y est. fit_classifier L X y = Inr est \<longrightarrow>
        (\<exists>p. predict_proba est = Some p
           \<and> (\<forall>X' columns. p X' = Inr columns \<longrightarrow> length columns = card (set y))))"

section \<open>Sample inputs\<close>

text \<open>
  Concrete inputs for the instances below: an instance of the library record in which the
  generator returns the variate \<open>1/2\<close> at every position, and a feature table of three rows.
\<close>

text \<open>
  Stand-ins for the estimators. The scaler centres every column and refuses an empty
  batch. The classifier refuses labels other than 0 and 1 and a label array of another
  length than the batch; fitted, it gives every class of its labels the same
  probability, one column for every class. The decision function of a novelty detector
  is the number of rows it was fitted on, on every row.
\<close>

definition cell_value :: "cell \<Rightarrow> real" where
  "cell_value c = (case c of Num v \<Rightarrow> v | x \<Rightarrow> 0)"

definition sample_scaler_fit :: "cell list list \<Rightarrow> error + real list \<times> real list" where
  "sample_scaler_fit X =
     (if X = [] then Inl (ValueError ''Found array with 0 sample(s)'')
      else Inr (map (\<lambda>j. mean_of (map (\<lambda>row. cell_value (row ! j)) X)) [0 ..< length (hd X)],
                replicate (length (hd X)) 1))"

definition sample_scaler_transform ::
  "real list \<times> real list \<Rightarrow> cell list list \<Rightarrow> error + real list list" where
  "sample_scaler_transform fitted X =
     (if X = [] then Inl (ValueError ''Found array with 0 sample(s)'')
      else Inr (map (\<lambda>row. map (\<lambda>(c, m, s). (cell_value c - m) / s)
                               (zip row (zip (fst fitted) (snd fitted)))) X))"

definition sample_forest :: "real list \<Rightarrow> estimator" where
  "sample_forest y =
     \<lparr> decision_function = None,
       predict_proba =
         Some (\<lambda>X'. Inr (map (\<lambda>c. map (\<lambda>row. 1 / real (length (remdups y))) X') (remdups y))),
       predict = (\<lambda>X'. Inr (map (\<lambda>row. hd y) X')) \<rparr>"

definition sample_fit_classifier :: "real list list \<Rightarrow> real list \<Rightarrow> error + estimator" where
  "sample_fit_classifier X y =
     (if length y \<noteq> length X
      then Inl (ValueError ''Found input variables with inconsistent numbers of samples'')
      else if \<not> list_all (\<lambda>l. l = 0 \<or> l = 1) y
      then Inl (ValueError ''Unknown label type'')
      else Inr (sample_forest y))"

definition sample_decision :: "real \<Rightarrow> scorer" where
  "sample_decision v = (\<lambda>X'. Inr (map (\<lambda>row. v) X'))"

definition sample_novelty :: "real list list \<Rightarrow> estimator" where
  "sample_novelty X =
     \<lparr> decision_function = Some (sample_decision (real (length X))),
       predict_proba = None,
       predict = sample_decision 1 \<rparr>"

definition sample_fit_novelty :: "string \<Rightarrow> real list list \<Rightarrow> error + estimator" where
  "sample_fit_novelty name X = Inr (sample_novelty X)"

text \<open>A pseudo-inverse that knows two diagonal covariance matrices.\<close>

definition sample_pinv :: "real list list \<Rightarrow> error + real list list" where
  "sample_pinv m =
     (if m = [[1, 0, 0], [0, 0, 0], [0, 0, 0]] then Inr [[1, 0, 0], [0, 0, 0], [0, 0, 0]]
      else if m = [[4, 0, 0], [0, 0, 0], [0, 0, 0]] then Inr [[1 / 4, 0, 0], [0, 0, 0], [0, 0, 0]]
      else Inl LinAlgError)"

definition sample_lib :: lib where
  "sample_lib =
     \<lparr> unit_variate = (\<lambda>n. 1 / 2), normal_variate = (\<lambda>n. 0),
       strftime = (\<lambda>t. ''19700101_000000''),
       parse_datetime = (\<lambda>s. if s = ''1970-01-01 00:00:00'' then Some 0 else None),
       dayofyear = (\<lambda>t. 1),
       rolling_mean = (\<lambda>w xs. Inr xs),
       rolling_std = (\<lambda>w xs. Inr (map (\<lambda>c. NaN) xs)),
       rolling_quantile = (\<lambda>w q xs. Inr xs),
       series_diff = (\<lambda>k xs. Inr (map (\<lambda>c. NaN) xs)),
       welch = (\<lambda>xs n. Inl (ValueError ''welch'')),
       pinv = sample_pinv,
       scaler_fit = sample_scaler_fit,
       scaler_transform = sample_scaler_transform,
       fit_classifier = sample_fit_classifier,
       fit_novelty = sample_fit_novelty \<rparr>"

definition sample_features :: dataframe where
  "sample_features =
     [(''timestamp'', [Stamp 0, Stamp 30000000000, Stamp 60000000000]),
      (''velocity'', [Num 700, Num 900, Num 900]),
      (''proton_flux'', [Num 1600, Num 2500, Num 2500])]"

definition sample_scores :: "real list" where
  "sample_scores = [8 / 10, 95 / 100, 95 / 100]"

text \<open>A telemetry batch of one sample, its timestamp a string, and a sample event.\<close>

definition sample_particles :: dataframe where
  "sample_particles =
     [(''timestamp'', [Str ''1970-01-01 00:00:00'']),
      (''proton_flux'', [Num 2500]),
      (''electron_flux'', [Num 800]),
      (''alpha_flux'', [Num 300]),
      (''velocity'', [Num 900]),
      (''temperature'', [Num 150000]),
      (''density'', [Num 5]),
      (''magnetic_field_magnitude'', [Num 5])]"

definition sample_event :: cme_event where
  "sample_event =
     \<lparr> ev_id = ''SWIS_19700101_000000'',
       ev_timestamp = 0,
       ev_type = halo,
       ev_velocity = Num 900,
       ev_width = 360,
       ev_acceleration = - 5,
       ev_confidence = 8 / 10,
       ev_source = ''swis'',
       ev_status = ''detected'',
       ev_latitude = 0,
       ev_longitude = 0,
       ev_magnitude = 9 \<rparr>"

text \<open>
  Tables with the five columns of the z-score loop and a diagonal flux covariance: of
  three rows, of four rows, of four rows with a covariance that the sample pseudo-inverse
  refuses, and a table without alpha flux. \<open>sample_zscored\<close> is a table after the z-score
  loop of the sample library, whose rolling deviation is missing everywhere.
\<close>

definition sample_flux3 :: dataframe where
  "sample_flux3 =
     [(''proton_flux'', [Num 0, Num 1, Num 2]),
      (''electron_flux'', [Num 0, Num 0, Num 0]),
      (''alpha_flux'', [Num 0, Num 0, Num 0]),
      (''velocity'', [Num 400, Num 400, Num 400]),
      (''temperature'', [Num 100000, Num 100000, Num 100000])]"

definition sample_flux4 :: dataframe where
  "sample_flux4 =
     [(''proton_flux'', [Num 0, Num 0, Num 0, Num 4]),
      (''electron_flux'', [NaN, Num 0, Num 0, Num 0]),
      (''alpha_flux'', [Num 0, Num 0, Num 0, Num 0]),
      (''velocity'', [Num 400, Num 400, Num 400, Num 400]),
      (''temperature'', [Num 100000, Num 100000, Num 100000, Num 100000])]"

definition sample_flux_refused :: dataframe where
  "sample_flux_refused =
     [(''proton_flux'', [Num 0, Num 0, Num 0, Num 8]),
      (''electron_flux'', [Num 0, Num 0, Num 0, Num 0]),
      (''alpha_flux'', [Num 0, Num 0, Num 0, Num 0]),
      (''velocity'', [Num 400, Num 400, Num 400, Num 400]),
      (''temperature'', [Num 100000, Num 100000, Num 100000, Num 100000])]"

definition sample_flux_missing :: dataframe where
  "sample_flux_missing =
     [(''proton_flux'', [Num 0, Num 1, Num 2, Num 3]),
      (''electron_flux'', [Num 0, Num 0, Num 0, Num 0]),
      (''velocity'', [Num 400, Num 400, Num 400, Num 400]),
      (''temperature'', [Num 100000, Num 100000, Num 100000, Num 100000])]"

definition sample_zscored :: "dataframe \<Rightarrow> dataframe" where
  "sample_zscored df =
     df @ map (\<lambda>c. (c @ ''_zscore'', replicate (len_df df) NaN)) zscore_sources"

text \<open>
  Training batches with one of the feature columns, and the detector of an empty
  configuration: new, after a training on two rows labelled 1, after a training on two
  rows labelled 0 and 1, and after a training on two rows labelled 0.
\<close>

definition sample_training :: dataframe where
  "sample_training = [(''velocity'', [Num 400, Num 900])]"

definition sample_retraining :: dataframe where
  "sample_retraining = [(''velocity'', [Num 0, Num 10, Num 20])]"

definition sample_detector :: detector where
  "sample_detector = new_detector (\<lambda>key. None)"

definition sample_degraded :: detector where
  "sample_degraded =
     sample_detector \<lparr> feature_columns := get_feature_importance_columns,
                       scaler := Some ([650], [1]),
                       models := [(''isolation_forest'', Unfitted), (''svm'', Unfitted),
                                  (''random_forest'', Fitted (sample_forest [1, 1]))],
                       is_trained := True \<rparr>"

definition sample_trained :: detector where
  "sample_trained =
     sample_detector \<lparr> feature_columns := get_feature_importance_columns,
                       scaler := Some ([650], [1]),
                       models := [(''isolation_forest'', Fitted (sample_novelty [[- 250]])),
                                  (''svm'', Fitted (sample_novelty [[- 250]])),
                                  (''random_forest'', Fitted (sample_forest [0, 1]))],
                       is_trained := True \<rparr>"

definition sample_single_class :: detector where
  "sample_single_class =
     sample_detector \<lparr> feature_columns := get_feature_importance_columns,
                       scaler := Some ([650], [1]),
                       models := [(''isolation_forest'', Fitted (sample_novelty [[- 250], [250]])),
                                  (''svm'', Fitted (sample_novelty [[- 250], [250]])),
                                  (''random_forest'', Fitted (sample_forest [0, 0]))],
                       is_trained := True \<rparr>"

text \<open>The trained sample detector after a retraining that raises in the classifier.\<close>

definition sample_retrained :: detector where
  "sample_retrained =
     sample_trained \<lparr> scaler := Some ([10], [1]),
                      models := [(''isolation_forest'', Fitted (sample_novelty [[- 10], [0]])),
                                 (''svm'', Fitted (sample_novelty [[- 10], [0]])),
                                 (''random_forest'', Fitted (sample_forest [0, 1]))] \<rparr>"

section \<open>Properties of the grouping\<close>

lemma within_gap_snoc:
  "cur \<noteq> [] \<Longrightarrow> within_gap g (cur @ [x]) = (within_gap g cur \<and> x - last cur \<le> g)"
  by (induction g cur rule: within_gap.induct) auto

lemma separated_snoc:
  "gs \<noteq> [] \<Longrightarrow> separated g (gs @ [c]) = (separated g gs \<and> hd c - last (last gs) > g)"
  by (induction g gs rule: separated.induct) auto

lemma group_loop_concat:
  "concat (group_loop g prev xs groups cur) = concat groups @ cur @ xs"
  by (induction xs arbitrary: prev groups cur) auto

lemma group_loop_nonempty:
  "cur \<noteq> [] \<Longrightarrow> list_all nonempty groups \<Longrightarrow>
   list_all nonempty (group_loop g prev xs groups cur)"
  by (induction xs arbitrary: prev groups cur) (auto simp: nonempty_def)

lemma group_loop_within_gap:
  "cur \<noteq> [] \<Longrightarrow> last cur = prev \<Longrightarrow> within_gap g cur \<Longrightarrow>
   list_all (within_gap g) groups \<Longrightarrow>
   list_all (within_gap g) (group_loop g prev xs groups cur)"
proof (induction xs arbitrary: prev groups cur)
  case Nil
  then show ?case by simp
next
  case (Cons x xs)
  show ?case
  proof (cases "x - prev \<le> g")
    case True
    have "within_gap g (cur @ [x])"
      using Cons.prems True by (simp add: within_gap_snoc)
    then show ?thesis
      using True Cons.prems Cons.IH [of "cur @ [x]" x groups] by simp
  next
    case False
    then show ?thesis
      using Cons.prems Cons.IH [of "[x]" x "groups @ [cur]"] by simp
  qed
qed

lemma group_loop_separated:
  "cur \<noteq> [] \<Longrightarrow> last cur = prev \<Longrightarrow> separated g (groups @ [cur]) \<Longrightarrow>
   separated g (group_loop g prev xs groups cur)"
proof (induction xs arbitrary: prev groups cur)
  case Nil
  then show ?case by simp
next
  case (Cons x xs)
  show ?case
  proof (cases "x - prev \<le> g")
    case True
    have "separated g (groups @ [cur @ [x]])"
    proof (cases "groups = []")
      case True
      then show ?thesis by simp
    next
      case False
      then show ?thesis
        using Cons.prems by (simp add: separated_snoc)
    qed
    then show ?thesis
      using True Cons.prems Cons.IH [of "cur @ [x]" x groups] by simp
  next
    case False
    have "separated g ((groups @ [cur]) @ [[x]])"
      using False Cons.prems separated_snoc [of "groups @ [cur]" g "[x]"] by simp
    then show ?thesis
      using False Cons.IH [of "[x]" x "groups @ [cur]"] by simp
  qed
qed

text \<open>
  Claim C7. For every index list and gap \<open>g\<close>, the grouping splits the list, in order, into
  non-empty runs whose consecutive members differ by at most \<open>g\<close>, adjacent runs being more
  than \<open>g\<close> apart (the runs are maximal); the empty list gives no group, and the three
  examples of the specification evaluate as stated.
\<close>

theorem group_consecutive_detections_maximal_runs:
  "concat (group_consecutive_detections idx g) = idx
   \<and> list_all nonempty (group_consecutive_detections idx g)
   \<and> list_all (within_gap g) (group_consecutive_detections idx g)
   \<and> separated g (group_consecutive_detections idx g)
   \<and> group_consecutive_detections [] g = []
   \<and> group_consecutive_detections [1, 2, 3, 5, 6, 10] 1 = [[1, 2, 3], [5, 6], [10]]
   \<and> group_consecutive_detections [1, 2, 3, 4, 5] 1 = [[1, 2, 3, 4, 5]]"
proof -
  have c: "concat (group_consecutive_detections idx g) = idx"
    by (cases idx) (simp_all add: group_consecutive_detections_def group_loop_concat)
  have n: "list_all nonempty (group_consecutive_detections idx g)"
    by (cases idx) (simp_all add: group_consecutive_detections_def group_loop_nonempty)
  have w: "list_all (within_gap g) (group_consecutive_detections idx g)"
    by (cases idx) (simp_all add: group_consecutive_detections_def group_loop_within_gap)
  have s: "separated g (group_consecutive_detections idx g)"
    by (cases idx) (simp_all add: group_consecutive_detections_def group_loop_separated)
  have e: "group_consecutive_detections [] g = []"
    by (simp add: group_consecutive_detections_def)
  have x1: "group_consecutive_detections [1, 2, 3, 5, 6, 10] 1 = [[1, 2, 3], [5, 6], [10]]"
    by (simp add: group_consecutive_detections_def)
  have x2: "group_consecutive_detections [1, 2, 3, 4, 5] 1 = [[1, 2, 3, 4, 5]]"
    by (simp add: group_consecutive_detections_def)
  from c n w s e x1 x2 show ?thesis by blast
qed

section \<open>Properties of event creation\<close>

lemma argmax_loop_spec:
  "drop k xs = ys \<Longrightarrow> bk < k \<Longrightarrow> k \<le> length xs \<Longrightarrow> xs ! bk = bv \<Longrightarrow>
   (\<forall>j<k. xs ! j \<le> bv) \<Longrightarrow> (\<forall>j<bk. xs ! j < bv) \<Longrightarrow>
   argmax_loop ys k bk bv < length xs
   \<and> (\<forall>j<length xs. xs ! j \<le> xs ! argmax_loop ys k bk bv)
   \<and> (\<forall>j<argmax_loop ys k bk bv. xs ! j < xs ! argmax_loop ys k bk bv)"
proof (induction ys arbitrary: k bk bv)
  case Nil
  then show ?case by auto
next
  case (Cons y ys)
  have klt: "k < length xs" using Cons.prems(1)
    by (metis drop_all list.distinct(1) not_le)
  have y: "xs ! k = y" using Cons.prems(1) klt
    by (metis Cons_nth_drop_Suc list.inject)
  have d: "drop (Suc k) xs = ys" using Cons.prems(1) klt
    by (metis Cons_nth_drop_Suc list.inject)
  show ?case
  proof (cases "y > bv")
    case True
    have "\<forall>j<Suc k. xs ! j \<le> y"
      using Cons.prems(5) True y by (auto simp: less_Suc_eq intro: less_imp_le order_trans)
    moreover have "\<forall>j<k. xs ! j < y"
      using Cons.prems(5) True by (auto intro: le_less_trans)
    ultimately show ?thesis
      using True Cons.IH [of "Suc k" k y] d y klt by simp
  next
    case False
    have "\<forall>j<Suc k. xs ! j \<le> bv"
      using Cons.prems(5) False y by (auto simp: less_Suc_eq)
    then show ?thesis
      using False Cons.IH [of "Suc k" bk bv] d Cons.prems klt by simp
  qed
qed

lemma argmax_spec:
  "xs \<noteq> [] \<Longrightarrow> \<exists>m. argmax xs = Inr m \<and> m < length xs
     \<and> (\<forall>j<length xs. xs ! j \<le> xs ! m) \<and> (\<forall>j<m. xs ! j < xs ! m)"
proof (cases xs)
  case Nil
  assume "xs \<noteq> []"
  with Nil show ?thesis by simp
next
  case (Cons x rest)
  have "argmax_loop rest 1 0 x < length xs
   \<and> (\<forall>j<length xs. xs ! j \<le> xs ! argmax_loop rest 1 0 x)
   \<and> (\<forall>j<argmax_loop rest 1 0 x. xs ! j < xs ! argmax_loop rest 1 0 x)"
    by (rule argmax_loop_spec) (simp_all add: Cons)
  then show ?thesis by (simp add: argmax_def Cons)
qed

lemma take_indices_in_range:
  "list_all (\<lambda>i. 0 \<le> i \<and> i < int (length scores)) indices \<Longrightarrow>
   take_indices scores indices = Inr (map (\<lambda>i. scores ! nat i) indices)"
  by (induction indices) (auto simp: py_index_def)


lemma peak_index_spec:
  assumes ne: "indices \<noteq> []"
    and asc: "sorted_wrt (<) indices"
    and rng: "list_all (\<lambda>i. 0 \<le> i \<and> i < int (length scores)) indices"
  shows "\<exists>p. peak_index scores indices = Inr p \<and> p \<in> set indices
     \<and> (\<forall>i\<in>set indices. scores ! nat i \<le> scores ! nat p)
     \<and> (\<forall>i\<in>set indices. scores ! nat i = scores ! nat p \<longrightarrow> p \<le> i)"
proof -
  let ?sub = "map (\<lambda>i. scores ! nat i) indices"
  have t: "take_indices scores indices = Inr ?sub"
    using rng by (rule take_indices_in_range)
  have "?sub \<noteq> []" using ne by simp
  from argmax_spec [OF this] obtain m where
    m: "argmax ?sub = Inr m" "m < length ?sub"
       "\<forall>j<length ?sub. ?sub ! j \<le> ?sub ! m" "\<forall>j<m. ?sub ! j < ?sub ! m"
    by blast
  have ml: "m < length indices" using m(2) by simp
  have pk: "peak_index scores indices = Inr (indices ! m)"
    using t m(1) ml by (simp add: peak_index_def py_index_def)
  have mem: "indices ! m \<in> set indices" using ml by simp
  have le: "\<forall>i\<in>set indices. scores ! nat i \<le> scores ! nat (indices ! m)"
  proof
    fix i assume "i \<in> set indices"
    then obtain j where j: "j < length indices" "indices ! j = i"
      by (auto simp: in_set_conv_nth)
    then show "scores ! nat i \<le> scores ! nat (indices ! m)"
      using m(3) ml by auto
  qed
  have first: "\<forall>i\<in>set indices. scores ! nat i = scores ! nat (indices ! m) \<longrightarrow> indices ! m \<le> i"
  proof (intro ballI impI)
    fix i assume i: "i \<in> set indices" and eq: "scores ! nat i = scores ! nat (indices ! m)"
    then obtain j where j: "j < length indices" "indices ! j = i"
      by (auto simp: in_set_conv_nth)
    have "\<not> j < m"
    proof
      assume "j < m"
      then have "?sub ! j < ?sub ! m" using m(4) by blast
      then show False using eq j ml by simp
    qed
    then have "m \<le> j" by simp
    then show "indices ! m \<le> i"
      using asc j ml by (cases "m = j") (auto simp: sorted_wrt_iff_nth_less less_imp_le)
  qed
  from pk mem le first show ?thesis by blast
qed

lemma iloc_in_range:
  "0 \<le> p \<Longrightarrow> p < int (len_df df) \<Longrightarrow>
   iloc df p = Inr (map (\<lambda>(k, xs). (k, xs ! nat p)) df)"
  by (simp add: iloc_def py_index_def)

lemma map_of_row:
  "map_of (map (\<lambda>(k, xs). (k, xs ! j)) df) c = map_option (\<lambda>xs. xs ! j) (map_of df c)"
  by (induction df) auto

lemma rectangular_length:
  "rectangular df \<Longrightarrow> map_of df c = Some xs \<Longrightarrow> length xs = len_df df"
  by (auto simp: rectangular_def list_all_iff dest!: map_of_SomeD)

lemma numeric_cell:
  assumes "rectangular df" "numeric_or_absent c df" "j < len_df df"
  shows "\<exists>v. series_get (map (\<lambda>(k, xs). (k, xs ! j)) df) c (Num d) = Num v"
proof (cases "map_of df c")
  case None
  then show ?thesis by (simp add: series_get_def map_of_row)
next
  case (Some xs)
  then have "length xs = len_df df" using assms(1) by (rule rectangular_length [rotated])
  moreover have "list_all is_num xs" using assms(2) Some by (simp add: numeric_or_absent_def)
  ultimately have "is_num (xs ! j)" using assms(3) by (simp add: list_all_length)
  then obtain v where "xs ! j = Num v" by (cases "xs ! j") auto
  then show ?thesis using Some by (simp add: series_get_def map_of_row)
qed

lemma stamped_cell:
  assumes "rectangular df" "stamped df" "j < len_df df"
  shows "\<exists>t. series_item (map (\<lambda>(k, xs). (k, xs ! j)) df) ''timestamp'' = Inr (Stamp t)"
proof (cases "map_of df ''timestamp''")
  case None
  then show ?thesis using assms(2) by (simp add: stamped_def)
next
  case (Some xs)
  then have "length xs = len_df df" using assms(1) by (rule rectangular_length [rotated])
  moreover have "list_all is_stamp xs" using assms(2) Some by (simp add: stamped_def)
  ultimately have "is_stamp (xs ! j)" using assms(3) by (simp add: list_all_length)
  then obtain t where "xs ! j = Stamp t" by (cases "xs ! j") auto
  then show ?thesis using Some by (simp add: series_item_def map_of_row)
qed

lemma classify_cme_spec:
  assumes "0 \<le> unit_variate L s" "unit_variate L s < 1"
  shows "\<exists>ty w s'. classify_cme L (Num v) (Num f) s = (Inr (ty, w), s')
     \<and> (if v > 800 \<and> f > 2000 then ty = halo \<and> w = 360
         else if v > 600 \<and> f > 1500 then ty = partial_halo \<and> 120 \<le> w \<and> w < 359
         else ty = non_halo \<and> 20 \<le> w \<and> w < 119)"
  using assms by (auto simp: classify_cme_def py_and_def random_uniform_def)


text \<open>
  Claim C8. For a non-empty ascending group of indices into an aligned score series over a
  well-formed feature table, \<^verbatim>\<open>_create_cme_event\<close> returns an event built from the peak row:
  the peak is a member of the group with the maximal score, and the lowest such index; the
  confidence is the peak's score, the magnitude is \<open>min 10 (velocity / 100)\<close>, and the type
  and width follow the fixed rule (halo with width exactly 360; partial halo with width in
  \<open>[120, 359)\<close>; non halo with width in \<open>[20, 119)\<close>), the generator's variates lying in
  \<open>[0, 1)\<close>.
\<close>

theorem create_cme_event_characterised:
  assumes ne: "indices \<noteq> []"
    and asc: "sorted_wrt (<) indices"
    and rng: "list_all (\<lambda>i. 0 \<le> i \<and> i < int (length scores)) indices"
    and aligned: "length scores = len_df features_df"
    and rect: "rectangular features_df"
    and st: "stamped features_df"
    and nv: "numeric_or_absent ''velocity'' features_df"
    and nf: "numeric_or_absent ''proton_flux'' features_df"
    and u0: "0 \<le> unit_variate L s" and u1: "unit_variate L s < 1"
  shows "\<exists>p row v f ev s'.
     peak_index scores indices = Inr p \<and> p \<in> set indices
     \<and> (\<forall>i\<in>set indices. scores ! nat i \<le> scores ! nat p)
     \<and> (\<forall>i\<in>set indices. scores ! nat i = scores ! nat p \<longrightarrow> p \<le> i)
     \<and> iloc features_df p = Inr row
     \<and> series_get row ''velocity'' (Num 400) = Num v
     \<and> series_get row ''proton_flux'' (Num 1000) = Num f
     \<and> create_cme_event L features_df scores indices s = (Inr ev, s')
     \<and> ev_confidence ev = scores ! nat p
     \<and> ev_magnitude ev = min 10 (v / 100)
     \<and> (if v > 800 \<and> f > 2000 then ev_type ev = halo \<and> ev_width ev = 360
         else if v > 600 \<and> f > 1500
              then ev_type ev = partial_halo \<and> 120 \<le> ev_width ev \<and> ev_width ev < 359
              else ev_type ev = non_halo \<and> 20 \<le> ev_width ev \<and> ev_width ev < 119)"
proof -
  from peak_index_spec [OF ne asc rng] obtain p where
    p: "peak_index scores indices = Inr p" "p \<in> set indices"
       "\<forall>i\<in>set indices. scores ! nat i \<le> scores ! nat p"
       "\<forall>i\<in>set indices. scores ! nat i = scores ! nat p \<longrightarrow> p \<le> i"
    by blast
  have pr: "0 \<le> p" "p < int (length scores)"
    using rng p(2) by (auto simp: list_all_iff)
  let ?row = "map (\<lambda>(k, xs). (k, xs ! nat p)) features_df"
  have row: "iloc features_df p = Inr ?row"
    using pr aligned by (simp add: iloc_in_range)
  have j: "nat p < len_df features_df" using pr aligned by simp
  from numeric_cell [OF rect nv j] obtain v where
    v: "series_get ?row ''velocity'' (Num 400) = Num v" by blast
  from numeric_cell [OF rect nf j] obtain f where
    f: "series_get ?row ''proton_flux'' (Num 1000) = Num f" by blast
  from stamped_cell [OF rect st j] obtain t where
    t: "series_item ?row ''timestamp'' = Inr (Stamp t)" by blast
  from classify_cme_spec [OF u0 u1, of v f] obtain ty w s1 where
    c: "classify_cme L (Num v) (Num f) s = (Inr (ty, w), s1)"
       "if v > 800 \<and> f > 2000 then ty = halo \<and> w = 360
        else if v > 600 \<and> f > 1500 then ty = partial_halo \<and> 120 \<le> w \<and> w < 359
        else ty = non_halo \<and> 20 \<le> w \<and> w < 119"
    by blast
  have conf: "py_index scores p = Inr (scores ! nat p)"
    using pr by (simp add: py_index_def)
  obtain ev s' where
    ev: "create_cme_event L features_df scores indices s = (Inr ev, s')"
        "ev_confidence ev = scores ! nat p" "ev_magnitude ev = min 10 (v / 100)"
        "ev_type ev = ty" "ev_width ev = w"
    using p(1) row v f t c(1) conf
    by (simp add: create_cme_event_def random_normal_def random_uniform_def)
  show ?thesis
    using p row v f ev c(2) by (intro exI [of _ p] exI [of _ ?row] exI [of _ v] exI [of _ f]
        exI [of _ ev] exI [of _ s']) simp
qed


theorem create_cme_event_characterised_witness:
  "\<exists>ev s'. create_cme_event sample_lib sample_features sample_scores [0, 1, 2] 0
        = (Inr ev, s')
     \<and> peak_index sample_scores [0, 1, 2] = Inr 1
     \<and> ev_confidence ev = 95 / 100 \<and> ev_type ev = halo \<and> ev_width ev = 360
     \<and> ev_magnitude ev = 9"
proof -
  have pk: "peak_index sample_scores [0, 1, 2] = Inr 1"
    by (simp add: peak_index_def py_index_def argmax_def sample_scores_def)
  have "\<exists>p row v f ev s'.
     peak_index sample_scores [0, 1, 2] = Inr p \<and> p \<in> set [0, 1, 2]
     \<and> (\<forall>i\<in>set [0, 1, 2]. sample_scores ! nat i \<le> sample_scores ! nat p)
     \<and> (\<forall>i\<in>set [0, 1, 2]. sample_scores ! nat i = sample_scores ! nat p \<longrightarrow> p \<le> i)
     \<and> iloc sample_features p = Inr row
     \<and> series_get row ''velocity'' (Num 400) = Num v
     \<and> series_get row ''proton_flux'' (Num 1000) = Num f
     \<and> create_cme_event sample_lib sample_features sample_scores [0, 1, 2] 0 = (Inr ev, s')
     \<and> ev_confidence ev = sample_scores ! nat p
     \<and> ev_magnitude ev = min 10 (v / 100)
     \<and> (if v > 800 \<and> f > 2000 then ev_type ev = halo \<and> ev_width ev = 360
         else if v > 600 \<and> f > 1500
              then ev_type ev = partial_halo \<and> 120 \<le> ev_width ev \<and> ev_width ev < 359
              else ev_type ev = non_halo \<and> 20 \<le> ev_width ev \<and> ev_width ev < 119)"
    by (rule create_cme_event_characterised)
       (simp_all add: sample_lib_def sample_features_def rectangular_def stamped_def
          numeric_or_absent_def len_df_def sample_scores_def)
  then obtain p row v f ev s' where
    a: "peak_index sample_scores [0, 1, 2] = Inr p"
       "iloc sample_features p = Inr row"
       "series_get row ''velocity'' (Num 400) = Num v"
       "series_get row ''proton_flux'' (Num 1000) = Num f"
       "create_cme_event sample_lib sample_features sample_scores [0, 1, 2] 0 = (Inr ev, s')"
       "ev_confidence ev = sample_scores ! nat p"
       "ev_magnitude ev = min 10 (v / 100)"
       "if v > 800 \<and> f > 2000 then ev_type ev = halo \<and> ev_width ev = 360
         else if v > 600 \<and> f > 1500
              then ev_type ev = partial_halo \<and> 120 \<le> ev_width ev \<and> ev_width ev < 359
              else ev_type ev = non_halo \<and> 20 \<le> ev_width ev \<and> ev_width ev < 119"
    by blast
  have p1: "p = 1" using a(1) pk by simp
  have "row = [(''timestamp'', Stamp 30000000000), (''velocity'', Num 900), (''proton_flux'', Num 2500)]"
    using a(2) by (simp add: p1 iloc_def py_index_def sample_features_def len_df_def)
  then have "v = 900" "f = 2500" using a(3,4) by (simp_all add: series_get_def)
  then show ?thesis using a pk p1 by (auto simp: sample_scores_def)
qed

section \<open>Properties of the segmentation\<close>

lemma sorted_wrt_concat_member:
  "sorted_wrt P (concat gs) \<Longrightarrow> g \<in> set gs \<Longrightarrow> sorted_wrt P g"
  by (induction gs) (auto simp: sorted_wrt_append)

lemma np_where_ascending: "sorted_wrt (<) (np_where flags)"
proof -
  have "sorted_wrt (<) (filter (\<lambda>i. flags ! i) [0 ..< length flags])"
    by (rule sorted_wrt_filter) simp
  then show ?thesis
    by (simp add: np_where_def sorted_wrt_map)
qed

lemma np_where_in_range:
  "i \<in> set (np_where flags) \<Longrightarrow> 0 \<le> i \<and> i < int (length flags)"
  by (auto simp: np_where_def)

lemma create_cme_event_peak_row:
  assumes ne: "indices \<noteq> []"
    and asc: "sorted_wrt (<) indices"
    and rng: "list_all (\<lambda>i. 0 \<le> i \<and> i < int (length scores)) indices"
    and aligned: "length scores \<le> len_df features_df"
    and rect: "rectangular features_df"
    and st: "stamped features_df"
    and nv: "numeric_or_absent ''velocity'' features_df"
    and nf: "numeric_or_absent ''proton_flux'' features_df"
  shows "\<exists>p row v f ev s' s1.
     peak_index scores indices = Inr p \<and> p \<in> set indices
     \<and> (\<forall>i\<in>set indices. scores ! nat i \<le> scores ! nat p)
     \<and> (\<forall>i\<in>set indices. scores ! nat i = scores ! nat p \<longrightarrow> p \<le> i)
     \<and> iloc features_df p = Inr row
     \<and> series_get row ''velocity'' (Num 400) = Num v
     \<and> series_get row ''proton_flux'' (Num 1000) = Num f
     \<and> create_cme_event L features_df scores indices s = (Inr ev, s')
     \<and> ev_confidence ev = scores ! nat p
     \<and> ev_magnitude ev = min 10 (v / 100)
     \<and> classify_cme L (Num v) (Num f) s = (Inr (ev_type ev, ev_width ev), s1)"
proof -
  from peak_index_spec [OF ne asc rng] obtain p where
    p: "peak_index scores indices = Inr p" "p \<in> set indices"
       "\<forall>i\<in>set indices. scores ! nat i \<le> scores ! nat p"
       "\<forall>i\<in>set indices. scores ! nat i = scores ! nat p \<longrightarrow> p \<le> i"
    by blast
  have pr: "0 \<le> p" "p < int (length scores)"
    using rng p(2) by (auto simp: list_all_iff)
  let ?row = "map (\<lambda>(k, xs). (k, xs ! nat p)) features_df"
  have row: "iloc features_df p = Inr ?row"
    using pr aligned by (simp add: iloc_in_range)
  have j: "nat p < len_df features_df" using pr aligned by simp
  from numeric_cell [OF rect nv j] obtain v where
    v: "series_get ?row ''velocity'' (Num 400) = Num v" by blast
  from numeric_cell [OF rect nf j] obtain f where
    f: "series_get ?row ''proton_flux'' (Num 1000) = Num f" by blast
  from stamped_cell [OF rect st j] obtain t where
    t: "series_item ?row ''timestamp'' = Inr (Stamp t)" by blast
  have "\<exists>ty w s1. classify_cme L (Num v) (Num f) s = (Inr (ty, w), s1)"
    by (simp add: classify_cme_def py_and_def random_uniform_def)
  then obtain ty w s1 where c: "classify_cme L (Num v) (Num f) s = (Inr (ty, w), s1)"
    by blast
  have conf: "py_index scores p = Inr (scores ! nat p)"
    using pr by (simp add: py_index_def)
  obtain ev s' where
    ev: "create_cme_event L features_df scores indices s = (Inr ev, s')"
        "ev_confidence ev = scores ! nat p" "ev_magnitude ev = min 10 (v / 100)"
        "ev_type ev = ty" "ev_width ev = w"
    using p(1) row v f t c(1) conf
    by (simp add: create_cme_event_def random_normal_def random_uniform_def)
  show ?thesis
    using p row v f ev c by (intro exI [of _ p] exI [of _ ?row] exI [of _ v] exI [of _ f]
        exI [of _ ev] exI [of _ s'] exI [of _ s1]) simp
qed

lemma events_loop_succeeds:
  assumes "list_all (\<lambda>g. g \<noteq> [] \<and> sorted_wrt (<) g
             \<and> list_all (\<lambda>i. 0 \<le> i \<and> i < int (length scores)) g) groups"
    and "length scores \<le> len_df features_df"
    and "rectangular features_df" "stamped features_df"
    and "numeric_or_absent ''velocity'' features_df"
    and "numeric_or_absent ''proton_flux'' features_df"
  shows "\<exists>evs s'. events_loop L features_df scores groups events s = (Inr evs, s')
           \<and> length evs = length events + length groups"
  using assms(1)
proof (induction groups arbitrary: events s)
  case Nil
  then show ?case by simp
next
  case (Cons g groups)
  have g: "g \<noteq> []" "sorted_wrt (<) g" "list_all (\<lambda>i. 0 \<le> i \<and> i < int (length scores)) g"
    using Cons.prems by simp_all
  from create_cme_event_peak_row [OF g assms(2-6), of L s] obtain ev s1 where
    ev: "create_cme_event L features_df scores g s = (Inr ev, s1)" by blast
  from Cons.IH [of "events @ [ev]" s1] Cons.prems obtain evs s' where
    "events_loop L features_df scores groups (events @ [ev]) s1 = (Inr evs, s')"
    "length evs = length (events @ [ev]) + length groups" by auto
  then show ?case using ev by simp
qed

lemma extract_events_groups_ok:
  "list_all (\<lambda>g. g \<noteq> [] \<and> sorted_wrt (<) g
             \<and> list_all (\<lambda>i. 0 \<le> i \<and> i < int (length flags)) g)
     (group_consecutive_detections (np_where flags) gap)"
proof -
  let ?gs = "group_consecutive_detections (np_where flags) gap"
  have c: "concat ?gs = np_where flags"
    by (cases "np_where flags") (simp_all add: group_consecutive_detections_def group_loop_concat)
  have n: "list_all nonempty ?gs"
    by (cases "np_where flags") (simp_all add: group_consecutive_detections_def group_loop_nonempty)
  have "g \<noteq> [] \<and> sorted_wrt (<) g \<and> list_all (\<lambda>i. 0 \<le> i \<and> i < int (length flags)) g"
    if "g \<in> set ?gs" for g
  proof -
    have "sorted_wrt (<) g"
      using that np_where_ascending [of flags] c sorted_wrt_concat_member by metis
    moreover have "set g \<subseteq> set (np_where flags)"
      using that c by (metis UN_I set_concat subsetI)
    then have "list_all (\<lambda>i. 0 \<le> i \<and> i < int (length flags)) g"
      using np_where_in_range by (auto simp: list_all_iff)
    moreover have "g \<noteq> []" using n that by (auto simp: list_all_iff nonempty_def)
    ultimately show ?thesis by simp
  qed
  then show ?thesis by (simp add: list_all_iff)
qed

text \<open>
  Claim C5, as amended. The segmentation returns the empty list, without raising, when no
  score exceeds the threshold, whatever the two lengths are. It never compares the length
  of the score series with the length of the feature table: with a score series no longer
  than a well-formed feature table it returns its events without raising.
\<close>

theorem extract_events_no_length_check:
  "(list_all (\<lambda>v. \<not> v > threshold) scores \<longrightarrow>
       extract_events L features_df scores threshold s = (Inr [], s))
   \<and> (length scores \<le> len_df features_df \<and> rectangular features_df \<and> stamped features_df
       \<and> numeric_or_absent ''velocity'' features_df
       \<and> numeric_or_absent ''proton_flux'' features_df \<longrightarrow>
       (\<exists>evs s'. extract_events L features_df scores threshold s = (Inr evs, s')))"
proof (intro conjI impI)
  assume "list_all (\<lambda>v. \<not> v > threshold) scores"
  then have "\<not> list_ex (\<lambda>b. b) (map (\<lambda>v. v > threshold) scores)"
    by (simp add: list_all_iff list_ex_iff)
  then show "extract_events L features_df scores threshold s = (Inr [], s)"
    by (simp add: extract_events_def)
next
  assume a: "length scores \<le> len_df features_df \<and> rectangular features_df \<and> stamped features_df
       \<and> numeric_or_absent ''velocity'' features_df
       \<and> numeric_or_absent ''proton_flux'' features_df"
  let ?flags = "map (\<lambda>v. v > threshold) scores"
  have g: "list_all (\<lambda>g. g \<noteq> [] \<and> sorted_wrt (<) g
             \<and> list_all (\<lambda>i. 0 \<le> i \<and> i < int (length scores)) g)
     (group_consecutive_detections (np_where ?flags) 10)"
    using extract_events_groups_ok [of ?flags 10] by simp
  from events_loop_succeeds [OF g, of features_df L "[]" s] a
  obtain evs s' where "events_loop L features_df scores
      (group_consecutive_detections (np_where ?flags) 10) [] s = (Inr evs, s')" by blast
  then show "\<exists>evs s'. extract_events L features_df scores threshold s = (Inr evs, s')"
    by (simp add: extract_events_def Let_def)
qed

theorem extract_events_no_length_check_witness:
  "extract_events sample_lib sample_features [1 / 10] (7 / 10) 0 = (Inr [], 0)
   \<and> (\<exists>evs s'. extract_events sample_lib sample_features [9 / 10] (7 / 10) 0 = (Inr evs, s'))"
proof -
  have a: "extract_events sample_lib sample_features [1 / 10] (7 / 10) 0 = (Inr [], 0)"
    using extract_events_no_length_check [of "7 / 10" "[1 / 10]" sample_lib sample_features 0]
    by simp
  have b: "\<exists>evs s'. extract_events sample_lib sample_features [9 / 10] (7 / 10) 0 = (Inr evs, s')"
    using extract_events_no_length_check [of "7 / 10" "[9 / 10]" sample_lib sample_features 0]
    by (simp add: sample_features_def len_df_def rectangular_def stamped_def
        numeric_or_absent_def)
  from a b show ?thesis by blast
qed

text \<open>
  The claim as stated fails: a score series of length one over the table of three rows is
  segmented into one event, and no error is raised.
\<close>

theorem extract_events_length_mismatch_counterexample:
  "length [9 / 10 :: real] \<noteq> len_df sample_features
   \<and> (\<exists>ev. extract_events sample_lib sample_features [9 / 10] (7 / 10) 0 = (Inr [ev], 4))"
  by (simp add: extract_events_def np_where_def group_consecutive_detections_def
      create_cme_event_def peak_index_def argmax_def py_index_def iloc_def len_df_def
      sample_features_def sample_lib_def series_get_def series_item_def classify_cme_def
      py_and_def random_uniform_def random_normal_def)

section \<open>Properties of the untrained detection\<close>

lemma py_index_replicate: "py_index (replicate n c) p = Inr x \<Longrightarrow> x = c"
  by (auto simp: py_index_def split: if_splits)

lemma create_cme_event_confidence:
  "create_cme_event L df scores idx s = (Inr ev, s') \<Longrightarrow>
   \<exists>p. py_index scores p = Inr (ev_confidence ev)"
  unfolding create_cme_event_def
  by (auto simp: Let_def split: sum.splits prod.splits)

lemma events_loop_confidence:
  "list_all (\<lambda>e. ev_confidence e = c) events \<Longrightarrow>
   events_loop L df (replicate n c) groups events s = (Inr evs, s') \<Longrightarrow>
   list_all (\<lambda>e. ev_confidence e = c) evs"
proof (induction groups arbitrary: events s)
  case Nil
  then show ?case by simp
next
  case (Cons g groups)
  from Cons.prems(2) obtain ev s1 where
    ev: "create_cme_event L df (replicate n c) g s = (Inr ev, s1)"
    and rest: "events_loop L df (replicate n c) groups (events @ [ev]) s1 = (Inr evs, s')"
    by (auto split: sum.splits prod.splits)
  from create_cme_event_confidence [OF ev] have "ev_confidence ev = c"
    by (auto dest: py_index_replicate)
  then have "list_all (\<lambda>e. ev_confidence e = c) (events @ [ev])"
    using Cons.prems(1) by simp
  from Cons.IH [OF this rest] show ?case .
qed

text \<open>
  The detection of an untrained detector on the sample batch, evaluated: the feature
  engineering succeeds and the one sample becomes one halo event.
\<close>

lemma sample_detection:
  "fst (detect_cme_events sample_lib (new_detector (\<lambda>k. None))
          \<lparr> frames = (\<lambda>r. sample_particles), generator = 0 \<rparr> 0) = Inr [sample_event]"
  by code_simp

text \<open>
  Claim C10. When the detector is untrained, every event the detection returns (the
  rule-based fallback) has confidence exactly 0.8, whatever the telemetry holds.
\<close>

theorem untrained_detection_confidence:
  assumes "\<not> is_trained det"
    and "detect_cme_events L det w r = (Inr events, w')"
  shows "list_all (\<lambda>e. ev_confidence e = 8 / 10) events"
proof -
  have rb: "rule_based_detection L det w r = (Inr events, w')"
    using assms by (simp add: detect_cme_events_def)
  show ?thesis
  proof (cases "engineer_features L (engineer det) (frames w) r")
    case (Pair st res)
    show ?thesis
    proof (cases res)
      case (Inl e)
      then show ?thesis using rb Pair by (simp add: rule_based_detection_def)
    next
      case (Inr features_df)
      show ?thesis
        using rb Pair Inr
        by (auto simp: rule_based_detection_def and_then_def
            split: sum.splits if_splits prod.splits
            dest: events_loop_confidence [rotated])
    qed
  qed
qed

theorem untrained_detection_confidence_witness:
  "\<not> is_trained (new_detector (\<lambda>k. None))
   \<and> fst (detect_cme_events sample_lib (new_detector (\<lambda>k. None))
             \<lparr> frames = (\<lambda>r. sample_particles), generator = 0 \<rparr> 0) = Inr [sample_event]
   \<and> list_all (\<lambda>e. ev_confidence e = 8 / 10) [sample_event]"
proof -
  let ?run = "detect_cme_events sample_lib (new_detector (\<lambda>k. None))
                \<lparr> frames = (\<lambda>r. sample_particles), generator = 0 \<rparr> 0"
  have u: "\<not> is_trained (new_detector (\<lambda>k. None))"
    by (simp add: new_detector_def)
  have run: "?run = (Inr [sample_event], snd ?run)"
    using sample_detection by (metis prod.collapse)
  from untrained_detection_confidence [OF u run]
  have "list_all (\<lambda>e. ev_confidence e = 8 / 10) [sample_event]" .
  with u sample_detection show ?thesis by blast
qed

section \<open>Properties of the feature engineering\<close>

lemma for_each_Inr:
  "for_each f xs = Inr ys \<Longrightarrow> list_all2 (\<lambda>x y. f x = Inr y) xs ys"
proof (induction xs arbitrary: ys)
  case Nil
  then show ?case by simp
next
  case (Cons x xs)
  then show ?case
    by (auto simp: and_then_def split: sum.splits)
qed

lemma for_each_fixed:
  "list_all (\<lambda>y. f y = Inr y) ys \<Longrightarrow> for_each f ys = Inr ys"
  by (induction ys) (auto simp: and_then_def)

lemma to_datetime_cell_idem:
  "to_datetime_cell L x = Inr y \<Longrightarrow> to_datetime_cell L y = Inr y"
  by (cases x) (auto split: option.splits)

lemma to_datetime_idem:
  assumes "to_datetime L xs = Inr ts"
  shows "to_datetime L ts = Inr ts"
proof -
  have "list_all2 (\<lambda>x y. to_datetime_cell L x = Inr y) xs ts"
    using assms unfolding to_datetime_def by (rule for_each_Inr)
  then have "list_all (\<lambda>y. to_datetime_cell L y = Inr y) ts"
    by (induction rule: list_all2_induct) (auto dest: to_datetime_cell_idem)
  then show ?thesis
    unfolding to_datetime_def by (rule for_each_fixed)
qed

lemma map_of_set_column:
  "map_of (set_column c xs df) k = (if k = c then Some xs else map_of df k)"
  by (induction df) auto

lemma set_column_twice:
  "set_column c xs (set_column c xs df) = set_column c xs df"
  by (induction df) auto

lemma engineer_features_store:
  assumes "get_column (st r) ''timestamp'' = Inr col" and "to_datetime L col = Inr ts"
  shows "fst (engineer_features L fe st r) = st (r := set_column ''timestamp'' ts (st r))"
  using assms
  by (auto simp: engineer_features_def has_column_def get_column_def and_then_def Let_def
      split: option.splits)

lemma engineer_features_repeat:
  assumes "engineer_features L fe st r = (st1, res)"
  shows "engineer_features L fe st1 r = (st1, res)"
proof (cases "map_of (st r) ''timestamp''")
  case None
  then show ?thesis
    using assms by (auto simp: engineer_features_def has_column_def)
next
  case (Some col)
  show ?thesis
  proof (cases "to_datetime L col")
    case (Inl e)
    then show ?thesis
      using assms Some
      by (auto simp: engineer_features_def has_column_def get_column_def and_then_def)
  next
    case (Inr ts)
    let ?df = "set_column ''timestamp'' ts (st r)"
    have st1: "st1 = st (r := ?df)"
      and res: "res = and_then (sort_values ''timestamp'' ?df) (engineer_steps L fe)"
      using assms Some Inr
      by (auto simp: engineer_features_def has_column_def get_column_def and_then_def Let_def)
    have idem: "to_datetime L ts = Inr ts"
      using Inr by (rule to_datetime_idem)
    have "st1 r = ?df" using st1 by simp
    moreover have "st1 (r := ?df) = st1" using st1 by simp
    ultimately show ?thesis
      using idem res
      by (simp add: engineer_features_def has_column_def get_column_def and_then_def
          map_of_set_column set_column_twice)
  qed
qed

text \<open>The feature engineering of the sample batch succeeds (it is the first step of the
  detection evaluated above).\<close>

lemma sample_engineering:
  "\<not> isl (snd (engineer_features sample_lib default_feature_engineer (\<lambda>r. sample_particles) 0))"
proof (cases "engineer_features sample_lib default_feature_engineer (\<lambda>r. sample_particles) 0")
  case (Pair st res)
  show ?thesis
  proof (cases res)
    case (Inl e)
    have "fst (detect_cme_events sample_lib (new_detector (\<lambda>k. None))
             \<lparr> frames = (\<lambda>r. sample_particles), generator = 0 \<rparr> 0) = Inl e"
      using Pair Inl
      by (simp add: detect_cme_events_def rule_based_detection_def new_detector_def)
    then show ?thesis using sample_detection by simp
  next
    case (Inr df)
    then show ?thesis using Pair by simp
  qed
qed

lemma sample_timestamps:
  "get_column sample_particles ''timestamp'' = Inr [Str ''1970-01-01 00:00:00'']
   \<and> to_datetime sample_lib [Str ''1970-01-01 00:00:00''] = Inr [Stamp 0]"
  by (simp add: get_column_def sample_particles_def to_datetime_def sample_lib_def and_then_def)

text \<open>
  Claim C9. \<^verbatim>\<open>engineer_features\<close> is deterministic: its output is a function of the table it
  is given and of the configuration (it reads no generator), and a second call on the same
  caller's frame returns the same output as the first, although the first call has
  converted the timestamps of that frame.
\<close>

theorem engineer_features_deterministic:
  "(st r = st' r' \<longrightarrow>
      snd (engineer_features L fe st r) = snd (engineer_features L fe st' r'))
   \<and> (engineer_features L fe st r = (st1, res) \<longrightarrow>
      engineer_features L fe st1 r = (st1, res))"
proof (intro conjI impI)
  assume "st r = st' r'"
  then show "snd (engineer_features L fe st r) = snd (engineer_features L fe st' r')"
    by (simp add: engineer_features_def Let_def split: sum.splits)
next
  assume "engineer_features L fe st r = (st1, res)"
  then show "engineer_features L fe st1 r = (st1, res)"
    by (rule engineer_features_repeat)
qed

theorem engineer_features_deterministic_witness:
  "snd (engineer_features sample_lib default_feature_engineer (\<lambda>r. sample_particles) 0)
     = snd (engineer_features sample_lib default_feature_engineer
              ((\<lambda>r. []) (7 := sample_particles)) 7)
   \<and> \<not> isl (snd (engineer_features sample_lib default_feature_engineer
                  (\<lambda>r. sample_particles) 0))
   \<and> engineer_features sample_lib default_feature_engineer
        (fst (engineer_features sample_lib default_feature_engineer (\<lambda>r. sample_particles) 0)) 0
      = engineer_features sample_lib default_feature_engineer (\<lambda>r. sample_particles) 0"
proof -
  let ?X = "engineer_features sample_lib default_feature_engineer (\<lambda>r. sample_particles) 0"
  have a: "snd ?X = snd (engineer_features sample_lib default_feature_engineer
              ((\<lambda>r. []) (7 := sample_particles)) 7)"
    using engineer_features_deterministic
      [of "\<lambda>r. sample_particles" 0 "(\<lambda>r. []) (7 := sample_particles)" 7
          sample_lib default_feature_engineer "fst ?X" "snd ?X"]
    by simp
  have "?X = (fst ?X, snd ?X)" by simp
  then have b: "engineer_features sample_lib default_feature_engineer (fst ?X) 0 = ?X"
    using engineer_features_deterministic
      [of "\<lambda>r. sample_particles" 0 "\<lambda>r. sample_particles" 0
          sample_lib default_feature_engineer "fst ?X" "snd ?X"]
    by simp
  from a b sample_engineering show ?thesis by blast
qed

text \<open>
  Claim C4 fails on the code. \<^verbatim>\<open>engineer_features\<close> assigns the converted timestamps to the
  frame it was given before it makes its first copy: after the call on the sample batch,
  which succeeds, the caller's frame holds timestamps where it held strings.
\<close>

theorem engineer_features_mutates_caller_frame:
  "map_of sample_particles ''timestamp'' = Some [Str ''1970-01-01 00:00:00'']
   \<and> map_of (fst (engineer_features sample_lib default_feature_engineer
                    (\<lambda>r. sample_particles) 0) 0) ''timestamp'' = Some [Stamp 0]
   \<and> fst (engineer_features sample_lib default_feature_engineer (\<lambda>r. sample_particles) 0) 0
      \<noteq> sample_particles
   \<and> \<not> isl (snd (engineer_features sample_lib default_feature_engineer
                  (\<lambda>r. sample_particles) 0))"
proof -
  have s: "fst (engineer_features sample_lib default_feature_engineer (\<lambda>r. sample_particles) 0)
           = (\<lambda>r. sample_particles) (0 := set_column ''timestamp'' [Stamp 0] sample_particles)"
    using sample_timestamps
      engineer_features_store [of "\<lambda>r. sample_particles" 0 "[Str ''1970-01-01 00:00:00'']"
        sample_lib "[Stamp 0]" default_feature_engineer]
    by simp
  have a: "map_of sample_particles ''timestamp'' = Some [Str ''1970-01-01 00:00:00'']"
    by (simp add: sample_particles_def)
  have b: "map_of (fst (engineer_features sample_lib default_feature_engineer
                    (\<lambda>r. sample_particles) 0) 0) ''timestamp'' = Some [Stamp 0]"
    by (simp add: s map_of_set_column)
  have c: "fst (engineer_features sample_lib default_feature_engineer (\<lambda>r. sample_particles) 0) 0
      \<noteq> sample_particles"
    using a b by auto
  from a b c sample_engineering show ?thesis by blast
qed


section \<open>Properties of the Mahalanobis feature\<close>

lemma numbers_of_measured:
  "list_all (\<lambda>c. c = NaN \<or> is_num c) xs \<Longrightarrow>
   numbers_of xs = Inr (concat (map (\<lambda>c. case c of Num v \<Rightarrow> [v] | x \<Rightarrow> []) xs))"
proof (induction xs)
  case Nil
  then show ?case by simp
next
  case (Cons c xs)
  then show ?case by (cases c) (auto simp: and_then_def)
qed

lemma numbers_nonempty:
  "list_ex is_num xs \<Longrightarrow> concat (map (\<lambda>c. case c of Num v \<Rightarrow> [v] | x \<Rightarrow> []) xs) \<noteq> []"
proof (induction xs)
  case Nil
  then show ?case by simp
next
  case (Cons c xs)
  then show ?case by (cases c) auto
qed

lemma column_mean_measured:
  assumes "measured xs"
  shows "column_mean xs =
    Inr (Num (mean_of (concat (map (\<lambda>c. case c of Num v \<Rightarrow> [v] | x \<Rightarrow> []) xs))))"
  using assms numbers_of_measured [of xs] numbers_nonempty [of xs]
  by (simp add: measured_def column_mean_def and_then_def)

lemma all_numbers_fillna:
  "list_all (\<lambda>c. c = NaN \<or> is_num c) xs \<Longrightarrow>
   all_numbers (fillna (Num m) xs) = Inr (map (\<lambda>c. case c of Num v \<Rightarrow> v | x \<Rightarrow> m) xs)"
proof (induction xs)
  case Nil
  then show ?case by (simp add: fillna_def)
next
  case (Cons c xs)
  then show ?case by (cases c) (auto simp: fillna_def and_then_def)
qed

lemma filled_measured:
  assumes "measured xs"
  shows "all_numbers (fillna (Num (mean_of (concat (map (\<lambda>c. case c of Num v \<Rightarrow> [v] | x \<Rightarrow> []) xs)))) xs)
     = Inr (fill_with_mean xs)"
  using assms all_numbers_fillna [of xs] by (simp add: measured_def fill_with_mean_def)

lemma mahalanobis_distances_measured:
  assumes "get_column df ''proton_flux'' = Inr p"
    and "get_column df ''electron_flux'' = Inr e"
    and "get_column df ''alpha_flux'' = Inr a"
    and "measured p" "measured e" "measured a"
    and "pinv L (np_cov [fill_with_mean p, fill_with_mean e, fill_with_mean a]) = Inr P"
  shows "mahalanobis_distances L df =
     Inr (map (mahalanobis P (map mean_of [fill_with_mean p, fill_with_mean e, fill_with_mean a]))
            (rows_of [fill_with_mean p, fill_with_mean e, fill_with_mean a] (len_df df)))"
  using assms column_mean_measured [of p] column_mean_measured [of e] column_mean_measured [of a]
    filled_measured [of p] filled_measured [of e] filled_measured [of a]
  by (simp add: mahalanobis_distances_def flux_columns_def and_then_def rows_of_def)

lemma mahalanobis_quadratic:
  "map (mahalanobis P mu) rows = mahalanobis_reference P mu rows"
  by (simp add: mahalanobis_reference_def mahalanobis_def quadratic_form_def Let_def np_sqrt_def)


lemma assign_all_keeps:
  "assign_all steps df = Inr d \<Longrightarrow> c \<notin> fst ` set steps \<Longrightarrow> map_of d c = map_of df c"
proof (induction steps arbitrary: df)
  case Nil
  then show ?case by simp
next
  case (Cons step steps)
  obtain n ex where s: "step = (n, ex)" by (cases step)
  from Cons.prems(1) obtain xs where
    x: "ex df = Inr xs" and r: "assign_all steps (set_column n xs df) = Inr d"
    unfolding s by (auto simp: assign_def and_then_def split: sum.splits)
  have "map_of d c = map_of (set_column n xs df) c"
    using Cons.IH [OF r] Cons.prems(2) by simp
  then show ?case
    using Cons.prems(2) s by (simp add: map_of_set_column)
qed

lemma assign_all_first:
  "assign_all steps df = Inr d \<Longrightarrow> df \<noteq> [] \<Longrightarrow> fst (hd df) \<notin> fst ` set steps
   \<Longrightarrow> d \<noteq> [] \<and> hd d = hd df"
proof (induction steps arbitrary: df)
  case Nil
  then show ?case by simp
next
  case (Cons step steps)
  obtain n ex where s: "step = (n, ex)" by (cases step)
  from Cons.prems(1) obtain xs where
    r: "assign_all steps (set_column n xs df) = Inr d"
    unfolding s by (auto simp: assign_def and_then_def split: sum.splits)
  obtain k v rest where d: "df = (k, v) # rest"
    using Cons.prems(2) by (cases df) auto
  have h: "set_column n xs df \<noteq> [] \<and> hd (set_column n xs df) = hd df"
    using Cons.prems(3) s d by auto
  then show ?case
    using Cons.IH [OF r] Cons.prems(3) by auto
qed

lemma assign_all_raises:
  assumes "\<And>d. \<not> has_column c d \<Longrightarrow> \<exists>e. ex d = Inl e"
  shows "(n, ex) \<in> set steps \<Longrightarrow> c \<notin> fst ` set steps \<Longrightarrow> \<not> has_column c df
         \<Longrightarrow> \<exists>e. assign_all steps df = Inl e"
proof (induction steps arbitrary: df)
  case Nil
  then show ?case by simp
next
  case (Cons step steps)
  obtain n' ex' where s: "step = (n', ex')" by (cases step)
  show ?case
  proof (cases "ex' df")
    case (Inl e)
    then show ?thesis by (simp add: s assign_def and_then_def)
  next
    case (Inr xs)
    have "(n, ex) \<noteq> (n', ex')"
      using assms [OF Cons.prems(3)] Inr by auto
    then have m: "(n, ex) \<in> set steps" using Cons.prems(1) s by auto
    have "\<not> has_column c (set_column n' xs df)"
      using Cons.prems(2,3) s by (simp add: has_column_def map_of_set_column)
    then have "\<exists>e. assign_all steps (set_column n' xs df) = Inl e"
      using Cons.IH [OF m] Cons.prems(2) by simp
    then show ?thesis using Inr by (simp add: s assign_def and_then_def)
  qed
qed

lemma zscore_missing: "\<not> has_column c d \<Longrightarrow> \<exists>e. zscore L c d = Inl e"
  by (simp add: zscore_def on_column_def get_column_def has_column_def and_then_def)

lemma zscore_columns_missing:
  assumes "c \<in> set flux_columns" and "\<not> has_column c df"
  shows "\<exists>e. zscore_columns L df = Inl e"
proof -
  have "(c @ ''_zscore'', zscore L c) \<in> set (map (\<lambda>c. (c @ ''_zscore'', zscore L c)) zscore_sources)"
    using assms(1) by (auto simp: flux_columns_def zscore_sources_def)
  moreover have "c \<notin> fst ` set (map (\<lambda>c. (c @ ''_zscore'', zscore L c)) zscore_sources)"
    using assms(1) by (auto simp: flux_columns_def zscore_sources_def)
  ultimately show ?thesis
    unfolding zscore_columns_def
    using assign_all_raises [of c "zscore L c" "c @ ''_zscore''" _ df] zscore_missing assms(2)
    by blast
qed

lemma zscore_columns_flux:
  assumes "zscore_columns L df = Inr d" and "c \<in> set flux_columns"
  shows "get_column d c = get_column df c"
proof -
  have "c \<notin> fst ` set (map (\<lambda>c. (c @ ''_zscore'', zscore L c)) zscore_sources)"
    using assms(2) by (auto simp: flux_columns_def zscore_sources_def)
  then show ?thesis
    using assign_all_keeps [OF assms(1) [unfolded zscore_columns_def]]
    by (simp add: get_column_def)
qed

lemma zscore_columns_rows:
  assumes "zscore_columns L df = Inr d"
    and "df \<noteq> []" and "fst (hd df) \<notin> set (map (\<lambda>c. c @ ''_zscore'') zscore_sources)"
  shows "len_df d = len_df df"
proof -
  have "fst (hd df) \<notin> fst ` set (map (\<lambda>c. (c @ ''_zscore'', zscore L c)) zscore_sources)"
    using assms(3) by (auto simp: image_iff)
  then have "d \<noteq> [] \<and> hd d = hd df"
    using assign_all_first [OF assms(1) [unfolded zscore_columns_def] assms(2)] by simp
  then show ?thesis
    using assms(2) by (cases d; cases df) (auto simp: len_df_def)
qed

text \<open>
  Claim C6, as amended, for \<^verbatim>\<open>create_anomaly_features\<close> as a whole. The z-score loop
  comes first and reads the three flux columns: on a table that lacks one of them the
  function raises, and nothing is filled with zeros. The function raises what the z-score
  loop raises and nothing else: when the loop succeeds, the function returns the frame of
  the loop with the feature column. The feature is a column of zeros, one for every row,
  when that frame has no more rows than the three flux columns (three rows included), and
  when the computation of the distances raises anything. When it has more than three rows,
  the flux columns are measured and the pseudo-inverse accepts their covariance, the
  feature is, for every row, the square root of the quadratic form of the row's deviation
  from the mean vector under that pseudo-inverse, and not a number where the form is
  negative. The frame of the loop has as many rows as the table when the first column of
  the table is not one of the z-score columns.
\<close>

theorem create_anomaly_features_mahalanobis:
  "(c \<in> set flux_columns \<and> \<not> has_column c df \<longrightarrow>
      (\<exists>e. create_anomaly_features L df = Inl e))
   \<and> (zscore_columns L df = Inr d \<longrightarrow>
      (\<exists>col. create_anomaly_features L df
                = Inr (set_column ''flux_mahalanobis_distance'' col d)
         \<and> (df \<noteq> [] \<and> fst (hd df) \<notin> set (map (\<lambda>c. c @ ''_zscore'') zscore_sources) \<longrightarrow>
              len_df d = len_df df)
         \<and> (len_df d \<le> length flux_columns \<longrightarrow> col = replicate (len_df d) (Num 0))
         \<and> (mahalanobis_distances L d = Inl err \<longrightarrow> col = replicate (len_df d) (Num 0))
         \<and> (len_df d > length flux_columns
            \<and> get_column df ''proton_flux'' = Inr p
            \<and> get_column df ''electron_flux'' = Inr e
            \<and> get_column df ''alpha_flux'' = Inr a
            \<and> measured p \<and> measured e \<and> measured a
            \<and> pinv L (np_cov [fill_with_mean p, fill_with_mean e, fill_with_mean a]) = Inr P
            \<longrightarrow>
            col = mahalanobis_reference P
                    (map mean_of [fill_with_mean p, fill_with_mean e, fill_with_mean a])
                    (rows_of [fill_with_mean p, fill_with_mean e, fill_with_mean a]
                       (len_df d)))))
   \<and> (create_anomaly_features L df = Inl failure) = (zscore_columns L df = Inl failure)"
proof (intro conjI impI)
  assume "c \<in> set flux_columns \<and> \<not> has_column c df"
  then obtain e where "zscore_columns L df = Inl e"
    using zscore_columns_missing [of c df L] by blast
  then show "\<exists>e. create_anomaly_features L df = Inl e"
    by (simp add: create_anomaly_features_def and_then_def)
next
  let ?D = "[fill_with_mean p, fill_with_mean e, fill_with_mean a]"
  let ?col = "flux_mahalanobis_distance L d"
  assume z: "zscore_columns L df = Inr d"
  have r: "create_anomaly_features L df = Inr (set_column ''flux_mahalanobis_distance'' ?col d)"
    using z by (simp add: create_anomaly_features_def and_then_def)
  have n: "df \<noteq> [] \<and> fst (hd df) \<notin> set (map (\<lambda>c. c @ ''_zscore'') zscore_sources) \<longrightarrow>
      len_df d = len_df df"
    using zscore_columns_rows [OF z] by blast
  have s: "len_df d \<le> length flux_columns \<longrightarrow> ?col = replicate (len_df d) (Num 0)"
    by (simp add: flux_mahalanobis_distance_def broadcast_def)
  have f: "mahalanobis_distances L d = Inl err \<longrightarrow> ?col = replicate (len_df d) (Num 0)"
    by (simp add: flux_mahalanobis_distance_def broadcast_def)
  have m: "?col = mahalanobis_reference P (map mean_of ?D) (rows_of ?D (len_df d))"
    if h: "len_df d > length flux_columns
            \<and> get_column df ''proton_flux'' = Inr p
            \<and> get_column df ''electron_flux'' = Inr e
            \<and> get_column df ''alpha_flux'' = Inr a
            \<and> measured p \<and> measured e \<and> measured a
            \<and> pinv L (np_cov ?D) = Inr P"
  proof -
    have "get_column d ''proton_flux'' = Inr p \<and> get_column d ''electron_flux'' = Inr e
        \<and> get_column d ''alpha_flux'' = Inr a"
      using h zscore_columns_flux [OF z] by (simp add: flux_columns_def)
    then have "mahalanobis_distances L d =
        Inr (map (mahalanobis P (map mean_of ?D)) (rows_of ?D (len_df d)))"
      using h mahalanobis_distances_measured [of d p e a L P] by simp
    then show ?thesis
      using h by (simp add: flux_mahalanobis_distance_def mahalanobis_quadratic)
  qed
  show "\<exists>col. create_anomaly_features L df
                = Inr (set_column ''flux_mahalanobis_distance'' col d)
         \<and> (df \<noteq> [] \<and> fst (hd df) \<notin> set (map (\<lambda>c. c @ ''_zscore'') zscore_sources) \<longrightarrow>
              len_df d = len_df df)
         \<and> (len_df d \<le> length flux_columns \<longrightarrow> col = replicate (len_df d) (Num 0))
         \<and> (mahalanobis_distances L d = Inl err \<longrightarrow> col = replicate (len_df d) (Num 0))
         \<and> (len_df d > length flux_columns
            \<and> get_column df ''proton_flux'' = Inr p
            \<and> get_column df ''electron_flux'' = Inr e
            \<and> get_column df ''alpha_flux'' = Inr a
            \<and> measured p \<and> measured e \<and> measured a
            \<and> pinv L (np_cov ?D) = Inr P
            \<longrightarrow>
            col = mahalanobis_reference P (map mean_of ?D) (rows_of ?D (len_df d)))"
    using r n s f m by blast
next
  show "(create_anomaly_features L df = Inl failure) = (zscore_columns L df = Inl failure)"
    by (cases "zscore_columns L df") (simp_all add: create_anomaly_features_def and_then_def)
qed

lemma sample_cov3:
  "np_cov [[0, 1, 2], [0, 0, 0], [0, 0, 0]] = [[1, 0, 0], [0, 0, 0], [0, 0, 0]]"
  by (simp add: np_cov_def centered_def mean_of_def dot_def)

lemma sample_cov4:
  "np_cov [[0, 0, 0, 4], [0, 0, 0, 0], [0, 0, 0, 0]] = [[4, 0, 0], [0, 0, 0], [0, 0, 0]]"
  by (simp add: np_cov_def centered_def mean_of_def dot_def)

lemma sample_filled3:
  "map (\<lambda>c. fill_with_mean (the (map_of sample_flux3 c))) flux_columns
     = [[0, 1, 2], [0, 0, 0], [0, 0, 0]]"
  by (simp add: sample_flux3_def flux_columns_def fill_with_mean_def)

lemma sample_filled4:
  "fill_with_mean [Num 0, Num 0, Num 0, Num 4] = [0, 0, 0, 4]
   \<and> fill_with_mean [NaN, Num 0, Num 0, Num 0] = [0, 0, 0, 0]
   \<and> fill_with_mean [Num 0, Num 0, Num 0, Num 0] = [0, 0, 0, 0]"
  by (simp add: fill_with_mean_def mean_of_def)

lemma sample_columns4:
  "get_column sample_flux4 ''proton_flux'' = Inr [Num 0, Num 0, Num 0, Num 4]
   \<and> get_column sample_flux4 ''electron_flux'' = Inr [NaN, Num 0, Num 0, Num 0]
   \<and> get_column sample_flux4 ''alpha_flux'' = Inr [Num 0, Num 0, Num 0, Num 0]"
  by (simp add: get_column_def sample_flux4_def)

lemma sample_roots: "sqrt (1 / 4) = 1 / 2 \<and> sqrt (9 / 4) = 3 / 2"
proof
  show "sqrt (1 / 4) = 1 / 2" by (rule real_sqrt_unique) (simp_all add: power2_eq_square)
  show "sqrt (9 / 4) = 3 / 2" by (rule real_sqrt_unique) (simp_all add: power2_eq_square)
qed

lemma sample_reference4:
  "mahalanobis_reference [[1 / 4, 0, 0], [0, 0, 0], [0, 0, 0]]
      (map mean_of [[0, 0, 0, 4], [0, 0, 0, 0], [0, 0, 0, 0]])
      (rows_of [[0, 0, 0, 4], [0, 0, 0, 0], [0, 0, 0, 0]] 4)
   = [Num (1 / 2), Num (1 / 2), Num (1 / 2), Num (3 / 2)]"
proof -
  have "rows_of [[0, 0, 0, 4], [0, 0, 0, 0], [0, 0, 0, 0]] 4
      = [[0, 0, 0], [0, 0, 0], [0, 0, 0], [4, 0, 0 :: real]]"
    by (simp add: rows_of_def upt_rec)
  then show ?thesis
    using sample_roots
    by (simp add: mahalanobis_reference_def quadratic_form_def dot_def mat_vec_def mean_of_def)
qed

lemma sample_zscores:
  "zscore_columns sample_lib sample_flux3 = Inr (sample_zscored sample_flux3)
   \<and> zscore_columns sample_lib sample_flux4 = Inr (sample_zscored sample_flux4)
   \<and> zscore_columns sample_lib sample_flux_refused = Inr (sample_zscored sample_flux_refused)"
  by code_simp

lemma sample_rows:
  "len_df (sample_zscored sample_flux3) = 3 \<and> len_df (sample_zscored sample_flux4) = 4
   \<and> len_df (sample_zscored sample_flux_refused) = 4"
  by (simp add: sample_zscored_def len_df_def sample_flux3_def sample_flux4_def
      sample_flux_refused_def)

lemma sample_refused:
  "mahalanobis_distances sample_lib (sample_zscored sample_flux_refused) = Inl LinAlgError"
  by code_simp

lemma sample_missing:
  "create_anomaly_features sample_lib sample_flux_missing = Inl (KeyError ''alpha_flux'')"
  by code_simp

text \<open>
  The cases at sample tables: no alpha flux, three rows, four rows with a covariance that
  the pseudo-inverse refuses, and four rows with one that it accepts.
\<close>

theorem create_anomaly_features_mahalanobis_witness:
  "create_anomaly_features sample_lib sample_flux_missing = Inl (KeyError ''alpha_flux'')
   \<and> create_anomaly_features sample_lib sample_flux3
       = Inr (set_column ''flux_mahalanobis_distance'' [Num 0, Num 0, Num 0]
                (sample_zscored sample_flux3))
   \<and> create_anomaly_features sample_lib sample_flux_refused
       = Inr (set_column ''flux_mahalanobis_distance'' [Num 0, Num 0, Num 0, Num 0]
                (sample_zscored sample_flux_refused))
   \<and> create_anomaly_features sample_lib sample_flux4
       = Inr (set_column ''flux_mahalanobis_distance''
                [Num (1 / 2), Num (1 / 2), Num (1 / 2), Num (3 / 2)]
                (sample_zscored sample_flux4))"
proof (intro conjI)
  have "''alpha_flux'' \<in> set flux_columns \<and> \<not> has_column ''alpha_flux'' sample_flux_missing"
    by (simp add: flux_columns_def has_column_def sample_flux_missing_def)
  then have "\<exists>e. create_anomaly_features sample_lib sample_flux_missing = Inl e"
    using create_anomaly_features_mahalanobis [of "''alpha_flux''" sample_flux_missing sample_lib]
    by blast
  then show "create_anomaly_features sample_lib sample_flux_missing = Inl (KeyError ''alpha_flux'')"
    using sample_missing by simp
next
  have "len_df (sample_zscored sample_flux3) \<le> length flux_columns"
    using sample_rows by (simp add: flux_columns_def)
  then show "create_anomaly_features sample_lib sample_flux3
       = Inr (set_column ''flux_mahalanobis_distance'' [Num 0, Num 0, Num 0]
                (sample_zscored sample_flux3))"
    using sample_zscores sample_rows
      create_anomaly_features_mahalanobis [of _ sample_flux3 sample_lib
        "sample_zscored sample_flux3"]
    by (auto simp: numeral_3_eq_3)
next
  show "create_anomaly_features sample_lib sample_flux_refused
       = Inr (set_column ''flux_mahalanobis_distance'' [Num 0, Num 0, Num 0, Num 0]
                (sample_zscored sample_flux_refused))"
    using sample_zscores sample_rows sample_refused
      create_anomaly_features_mahalanobis [of _ sample_flux_refused sample_lib
        "sample_zscored sample_flux_refused" LinAlgError]
    by (auto simp: numeral_eq_Suc)
next
  have "pinv sample_lib (np_cov [[0, 0, 0, 4], [0, 0, 0, 0], [0, 0, 0, 0]])
        = Inr [[1 / 4, 0, 0], [0, 0, 0], [0, 0, 0]]"
    by (simp add: sample_cov4 sample_pinv_def sample_lib_def)
  moreover have "measured [Num 0, Num 0, Num 0, Num 4] \<and> measured [NaN, Num 0, Num 0, Num 0]
      \<and> measured [Num 0, Num 0, Num 0, Num 0]"
    by (simp add: measured_def)
  moreover have "length flux_columns < len_df (sample_zscored sample_flux4)"
    using sample_rows by (simp add: flux_columns_def)
  ultimately show "create_anomaly_features sample_lib sample_flux4
       = Inr (set_column ''flux_mahalanobis_distance''
                [Num (1 / 2), Num (1 / 2), Num (1 / 2), Num (3 / 2)]
                (sample_zscored sample_flux4))"
    using sample_zscores sample_rows sample_columns4 sample_filled4 sample_reference4
      create_anomaly_features_mahalanobis [of _ sample_flux4 sample_lib
        "sample_zscored sample_flux4" _ "[Num 0, Num 0, Num 0, Num 4]"
        "[NaN, Num 0, Num 0, Num 0]" "[Num 0, Num 0, Num 0, Num 0]"
        "[[1 / 4, 0, 0], [0, 0, 0], [0, 0, 0]]"]
    by auto
qed

text \<open>
  Claim C6 as stated fails at a table of exactly three rows: it has not fewer rows than
  flux columns, the pseudo-inverse of its covariance exists and is returned, the distances
  of its rows are 1, 0 and 1, and the feature is a column of zeros: the code asks for
  strictly more rows than flux columns.
\<close>

theorem create_anomaly_features_three_rows_counterexample:
  "\<not> len_df sample_flux3 < length flux_columns
   \<and> pinv sample_lib
        (np_cov (map (\<lambda>c. fill_with_mean (the (map_of sample_flux3 c))) flux_columns))
       = Inr [[1, 0, 0], [0, 0, 0], [0, 0, 0]]
   \<and> is_pseudo_inverse
        (np_cov (map (\<lambda>c. fill_with_mean (the (map_of sample_flux3 c))) flux_columns))
        [[1, 0, 0], [0, 0, 0], [0, 0, 0]]
   \<and> mahalanobis_reference [[1, 0, 0], [0, 0, 0], [0, 0, 0]]
        (map mean_of (map (\<lambda>c. fill_with_mean (the (map_of sample_flux3 c))) flux_columns))
        (rows_of (map (\<lambda>c. fill_with_mean (the (map_of sample_flux3 c))) flux_columns)
           (len_df sample_flux3))
       = [Num 1, Num 0, Num 1]
   \<and> create_anomaly_features sample_lib sample_flux3
       = Inr (set_column ''flux_mahalanobis_distance'' [Num 0, Num 0, Num 0]
                (sample_zscored sample_flux3))"
proof -
  have a: "\<not> len_df sample_flux3 < length flux_columns"
    by (simp add: len_df_def sample_flux3_def flux_columns_def)
  have b: "pinv sample_lib
        (np_cov (map (\<lambda>c. fill_with_mean (the (map_of sample_flux3 c))) flux_columns))
       = Inr [[1, 0, 0], [0, 0, 0], [0, 0, 0]]"
    unfolding sample_filled3 by (simp add: sample_cov3 sample_pinv_def sample_lib_def)
  have c: "is_pseudo_inverse
        (np_cov (map (\<lambda>c. fill_with_mean (the (map_of sample_flux3 c))) flux_columns))
        [[1, 0, 0], [0, 0, 0], [0, 0, 0]]"
    unfolding sample_filled3
    by (simp add: sample_cov3 is_pseudo_inverse_def mat_mul_def mat_transpose_def dot_def
        upt_rec)
  have "len_df sample_flux3 = 3"
    by (simp add: len_df_def sample_flux3_def)
  moreover have "rows_of [[0, 1, 2], [0, 0, 0], [0, 0, 0]] 3
      = [[0, 0, 0], [1, 0, 0], [2, 0, 0 :: real]]"
    by (simp add: rows_of_def upt_rec)
  ultimately have d: "mahalanobis_reference [[1, 0, 0], [0, 0, 0], [0, 0, 0]]
        (map mean_of (map (\<lambda>c. fill_with_mean (the (map_of sample_flux3 c))) flux_columns))
        (rows_of (map (\<lambda>c. fill_with_mean (the (map_of sample_flux3 c))) flux_columns)
           (len_df sample_flux3))
       = [Num 1, Num 0, Num 1]"
    unfolding sample_filled3
    by (simp add: mahalanobis_reference_def quadratic_form_def dot_def mat_vec_def mean_of_def)
  have e: "create_anomaly_features sample_lib sample_flux3
       = Inr (set_column ''flux_mahalanobis_distance'' [Num 0, Num 0, Num 0]
                (sample_zscored sample_flux3))"
    using sample_zscores sample_rows
    by (simp add: create_anomaly_features_def and_then_def flux_mahalanobis_distance_def
        flux_columns_def broadcast_def numeral_3_eq_3)
  from a b c d e show ?thesis by blast
qed

section \<open>Properties of training and prediction\<close>

lemma train_models_success:
  assumes "train_models L det df labels = (det', Inr ())"
  shows "\<exists>fitted X ms.
           scaler_fit L (values_of df (training_columns df)) = Inr fitted
         \<and> scaler_transform L fitted (values_of df (training_columns df)) = Inr X
         \<and> train_loop L X labels (models det) = (ms, Inr ())
         \<and> det' = det \<lparr> feature_columns := get_feature_importance_columns,
                         scaler := Some fitted, models := ms, is_trained := True \<rparr>"
  using assms
  by (auto simp: train_models_def training_columns_def Let_def
      split: if_splits sum.splits prod.splits)

lemma normal_rows_none:
  assumes "list_all (\<lambda>l. l \<noteq> 0) labels" and "normal_rows X labels = Inr nd"
  shows "nd = []"
proof -
  have "filter (\<lambda>(row, l). l = 0) (zip X labels) = []"
    using assms(1) by (auto simp: filter_empty_conv list_all_iff dest: set_zip_rightD)
  then show ?thesis
    using assms(2) by (auto simp: normal_rows_def split: if_splits)
qed

lemma fit_model_skips:
  assumes "list_all (\<lambda>l. l \<noteq> 0) labels" and "name \<noteq> ''random_forest''"
    and "fit_model L X labels name m = Inr m'"
  shows "m' = m"
  using assms normal_rows_none [of labels X]
  by (auto simp: fit_model_def and_then_def split: sum.splits if_splits)

lemma train_loop_keeps_unfitted:
  assumes "list_all (\<lambda>l. l \<noteq> 0) labels" and "name \<noteq> ''random_forest''"
  shows "train_loop L X labels ms = (ms', Inr ()) \<Longrightarrow> (name, Unfitted) \<in> set ms
         \<Longrightarrow> (name, Unfitted) \<in> set ms'"
proof (induction ms arbitrary: ms')
  case Nil
  then show ?case by simp
next
  case (Cons nm ms)
  obtain n m where nm: "nm = (n, m)" by (cases nm)
  from Cons.prems(1) obtain m' rest' where
    f: "fit_model L X labels n m = Inr m'" and
    r: "train_loop L X labels ms = (rest', Inr ())" and
    e: "ms' = (n, m') # rest'"
    unfolding nm by (auto split: sum.splits prod.splits)
  show ?case
  proof (cases "(name, Unfitted) = (n, m)")
    case True
    then have "m' = m"
      using f fit_model_skips [OF assms(1), of n L X m m'] assms(2) by simp
    then show ?thesis using True e by simp
  next
    case False
    then have "(name, Unfitted) \<in> set ms" using Cons.prems(2) nm by auto
    then have "(name, Unfitted) \<in> set rest'" using Cons.IH [OF r] by simp
    then show ?thesis using e by simp
  qed
qed

lemma train_loop_names:
  "map fst (fst (train_loop L X labels ms)) = map fst ms"
  by (induction ms) (auto split: sum.splits prod.splits)

lemma for_each_error:
  "x \<in> set xs \<Longrightarrow> f x = Inl e \<Longrightarrow> \<exists>e'. for_each f xs = Inl e'"
proof (induction xs)
  case Nil
  then show ?case by simp
next
  case (Cons y ys)
  then show ?case
    by (cases "f y"; cases "for_each f ys") (auto simp: and_then_def)
qed

text \<open>
  Claim C1 fails in the code. When a training succeeds on a batch with no row labelled 0,
  a novelty detector that was unfitted before the call is skipped and is unfitted after
  it, and the trained flag is set. But the prediction loop (lines 116 to 128) runs over
  every model of the dictionary, the skipped one included, so the detector is not excluded
  from the fusion: for every feature table, the prediction of the trained detector raises
  an error and returns no probability.
\<close>

theorem unfitted_novelty_detector_fails_prediction:
  assumes "train_models L det features_df labels = (det', Inr ())"
    and "(name, Unfitted) \<in> set (models det)"
    and "name \<noteq> ''random_forest''"
    and "list_all (\<lambda>l. l \<noteq> 0) labels"
  shows "is_trained det' \<and> (name, Unfitted) \<in> set (models det')
         \<and> (\<forall>df. \<exists>e. predict_cme_probability L det' df = Inl e)"
proof -
  obtain fitted X ms where
    t: "train_loop L X labels (models det) = (ms, Inr ())" and
    d: "det' = det \<lparr> feature_columns := get_feature_importance_columns,
                     scaler := Some fitted, models := ms, is_trained := True \<rparr>"
    using train_models_success [OF assms(1)] by blast
  have u: "(name, Unfitted) \<in> set ms"
    using train_loop_keeps_unfitted [OF assms(4) assms(3) t assms(2)] .
  have "\<exists>e. predict_cme_probability L det' df = Inl e" for df
  proof (cases "scaler_transform L fitted
                  (values_of df (filter (\<lambda>c. has_column c df) get_feature_importance_columns))")
    case (Inl e)
    then show ?thesis by (simp add: d predict_cme_probability_def and_then_def)
  next
    case (Inr Y)
    have "model_probability Y (name, Unfitted) = Inl NotFittedError"
      by (simp add: model_probability_def)
    then obtain e' where "for_each (model_probability Y) ms = Inl e'"
      using for_each_error [OF u] by blast
    then show ?thesis using Inr by (simp add: d predict_cme_probability_def and_then_def)
  qed
  then show ?thesis using d u by simp
qed

lemma sample_values:
  "values_of sample_training (training_columns sample_training) = [[Num 400], [Num 900]]"
  by (simp add: values_of_def training_columns_def sample_training_def has_column_def
      get_feature_importance_columns_def len_df_def upt_rec)

lemma sample_scaling:
  "sample_scaler_fit [[Num 400], [Num 900]] = Inr ([650], [1])
   \<and> sample_scaler_transform ([650], [1]) [[Num 400], [Num 900]] = Inr [[- 250], [250]]"
  by (simp add: sample_scaler_fit_def sample_scaler_transform_def mean_of_def cell_value_def)


lemma sample_columns: "training_columns sample_training \<noteq> []"
  by (simp add: training_columns_def sample_training_def has_column_def
      get_feature_importance_columns_def)

lemma sample_degraded_training:
  "train_models sample_lib sample_detector sample_training [1, 1] = (sample_degraded, Inr ())"
proof -
  have "train_loop sample_lib [[- 250], [250]] [1, 1] (models sample_detector)
      = (models sample_degraded, Inr ())"
    by (simp add: sample_detector_def new_detector_def fit_model_def normal_rows_def
        and_then_def sample_lib_def sample_fit_classifier_def sample_degraded_def)
  then show ?thesis
    using sample_values sample_scaling sample_columns
    by (simp add: train_models_def Let_def training_columns_def [symmetric]
        sample_lib_def sample_degraded_def sample_detector_def new_detector_def)
qed

lemma sample_degraded_prediction:
  "predict_cme_probability sample_lib sample_degraded sample_training = Inl NotFittedError"
  using sample_values sample_scaling
  by (simp add: predict_cme_probability_def Let_def training_columns_def [symmetric]
      sample_degraded_def sample_lib_def and_then_def model_probability_def)

text \<open>
  The sample detector trained on two rows labelled 1: the training succeeds, and the
  prediction on the training batch raises \<^verbatim>\<open>NotFittedError\<close>.
\<close>

theorem unfitted_novelty_detector_fails_prediction_witness:
  "is_trained sample_degraded
   \<and> (''svm'', Unfitted) \<in> set (models sample_degraded)
   \<and> (\<forall>df. \<exists>e. predict_cme_probability sample_lib sample_degraded df = Inl e)
   \<and> predict_cme_probability sample_lib sample_degraded sample_training = Inl NotFittedError"
  using unfitted_novelty_detector_fails_prediction
      [of sample_lib sample_detector sample_training "[1, 1]" sample_degraded "''svm''"]
    sample_degraded_training sample_degraded_prediction
  by (simp add: sample_detector_def new_detector_def)

subsection \<open>A training that raises\<close>

lemma train_loop_same_names:
  "train_loop L X labels ms = (ms', res) \<Longrightarrow> map fst ms' = map fst ms"
  using train_loop_names [of L X labels ms] by simp

lemma train_loop_raises:
  "train_loop L X labels ms = (ms', Inl e) \<Longrightarrow>
   \<exists>pre pre' name m rest.
      ms = pre @ (name, m) # rest \<and> ms' = pre' @ (name, m) # rest
    \<and> fit_model L X labels name m = Inl e
    \<and> list_all2 (\<lambda>a b. fst b = fst a \<and> fit_model L X labels (fst a) (snd a) = Inr (snd b))
         pre pre'"
proof (induction ms arbitrary: ms')
  case Nil
  then show ?case by simp
next
  case (Cons nm ms)
  obtain n m where nm: "nm = (n, m)" by (cases nm)
  show ?case
  proof (cases "fit_model L X labels n m")
    case (Inl e1)
    then have "ms' = (n, m) # ms \<and> e1 = e"
      using Cons.prems by (auto simp: nm)
    then have "nm # ms = [] @ (n, m) # ms \<and> ms' = [] @ (n, m) # ms
        \<and> fit_model L X labels n m = Inl e
        \<and> list_all2 (\<lambda>a b. fst b = fst a \<and> fit_model L X labels (fst a) (snd a) = Inr (snd b))
             [] []"
      using Inl nm by simp
    then show ?thesis by blast
  next
    case (Inr m')
    obtain rest' res where r: "train_loop L X labels ms = (rest', res)"
      by (cases "train_loop L X labels ms")
    have e: "ms' = (n, m') # rest' \<and> res = Inl e"
      using Cons.prems Inr r by (auto simp: nm)
    then obtain pre pre' name k rest where
      i: "ms = pre @ (name, k) # rest" "rest' = pre' @ (name, k) # rest"
        "fit_model L X labels name k = Inl e"
        "list_all2 (\<lambda>a b. fst b = fst a \<and> fit_model L X labels (fst a) (snd a) = Inr (snd b))
           pre pre'"
      using Cons.IH [of rest'] r by blast
    have "nm # ms = ((n, m) # pre) @ (name, k) # rest
        \<and> ms' = ((n, m') # pre') @ (name, k) # rest
        \<and> fit_model L X labels name k = Inl e
        \<and> list_all2 (\<lambda>a b. fst b = fst a \<and> fit_model L X labels (fst a) (snd a) = Inr (snd b))
             ((n, m) # pre) ((n, m') # pre')"
      using i e Inr nm by simp
    then show ?thesis by blast
  qed
qed

lemma train_models_raises:
  assumes "train_models L det df labels = (det', Inl e)"
  shows "(training_columns df = []
          \<and> det' = det \<lparr> feature_columns := get_feature_importance_columns \<rparr>)
       \<or> (training_columns df \<noteq> []
          \<and> scaler_fit L (values_of df (training_columns df)) = Inl e
          \<and> det' = det \<lparr> feature_columns := get_feature_importance_columns, scaler := None \<rparr>)
       \<or> (training_columns df \<noteq> []
          \<and> (\<exists>fitted. scaler_fit L (values_of df (training_columns df)) = Inr fitted
                \<and> scaler_transform L fitted (values_of df (training_columns df)) = Inl e
                \<and> det' = det \<lparr> feature_columns := get_feature_importance_columns,
                                scaler := Some fitted \<rparr>))
       \<or> (training_columns df \<noteq> []
          \<and> (\<exists>fitted X ms.
                scaler_fit L (values_of df (training_columns df)) = Inr fitted
              \<and> scaler_transform L fitted (values_of df (training_columns df)) = Inr X
              \<and> train_loop L X labels (models det) = (ms, Inl e)
              \<and> det' = det \<lparr> feature_columns := get_feature_importance_columns,
                              scaler := Some fitted, models := ms \<rparr>))"
proof (cases "training_columns df = []")
  case True
  then show ?thesis
    using assms by (auto simp: train_models_def training_columns_def Let_def)
next
  case False
  let ?V = "values_of df (training_columns df)"
  show ?thesis
  proof (cases "scaler_fit L ?V")
    case (Inl e1)
    then show ?thesis
      using assms False by (auto simp: train_models_def training_columns_def Let_def)
  next
    case fit: (Inr fitted)
    show ?thesis
    proof (cases "scaler_transform L fitted ?V")
      case (Inl e2)
      then show ?thesis
        using assms False fit by (auto simp: train_models_def training_columns_def Let_def)
    next
      case tr: (Inr X)
      obtain ms res where l: "train_loop L X labels (models det) = (ms, res)"
        by (cases "train_loop L X labels (models det)")
      have "res = Inl e
          \<and> det' = det \<lparr> feature_columns := get_feature_importance_columns,
                          scaler := Some fitted, models := ms \<rparr>"
        using assms False fit tr l
        by (cases res) (auto simp: train_models_def training_columns_def Let_def)
      then show ?thesis using False fit tr l by auto
    qed
  qed
qed

text \<open>
  Claim C2, as amended: training is not atomic. When \<^verbatim>\<open>train_models\<close> raises, the trained
  flag, the thresholds and the feature engineer are as before the call, the column list is
  the fixed list of feature columns, which is the list the detector had if an earlier
  training succeeded, and the dictionary of models has the same names in the same order.
  When the table has none of the feature columns, the scaler and the models are as before
  the call. Otherwise the scaler is overwritten and the error comes from one of three
  places. If the fit of the scaler raised, the scaler is unfitted and the models are as
  before. If its transform raised, the scaler holds the fit on the new batch and the
  models are as before. If the round of a model raised, the scaler holds the fit on the
  new batch, every model before that one in the dictionary holds the result of its round
  on the new batch, and that model and the later ones are as before the call (a \<^verbatim>\<open>fit\<close>
  that raises is taken to leave its estimator as it was).
\<close>

theorem train_models_failure_state:
  assumes "train_models L det features_df labels = (det', Inl e)"
  shows "is_trained det' = is_trained det
       \<and> thresholds det' = thresholds det
       \<and> engineer det' = engineer det
       \<and> feature_columns det' = get_feature_importance_columns
       \<and> (train_models L0 det0 df0 labels0 = (det, Inr ()) \<longrightarrow>
            feature_columns det' = feature_columns det)
       \<and> map fst (models det') = map fst (models det)
       \<and> (training_columns features_df = [] \<longrightarrow>
            scaler det' = scaler det \<and> models det' = models det)
       \<and> (training_columns features_df \<noteq> [] \<longrightarrow>
            (scaler_fit L (values_of features_df (training_columns features_df)) = Inl e
               \<and> scaler det' = None \<and> models det' = models det)
          \<or> (\<exists>fitted.
                scaler_fit L (values_of features_df (training_columns features_df)) = Inr fitted
              \<and> scaler det' = Some fitted
              \<and> ((scaler_transform L fitted (values_of features_df (training_columns features_df))
                     = Inl e
                   \<and> models det' = models det)
                \<or> (\<exists>X pre pre' name m rest.
                      scaler_transform L fitted
                        (values_of features_df (training_columns features_df)) = Inr X
                    \<and> models det = pre @ (name, m) # rest
                    \<and> models det' = pre' @ (name, m) # rest
                    \<and> fit_model L X labels name m = Inl e
                    \<and> list_all2
                        (\<lambda>a b. fst b = fst a
                           \<and> fit_model L X labels (fst a) (snd a) = Inr (snd b))
                        pre pre'))))"
proof -
  let ?V = "values_of features_df (training_columns features_df)"
  have t: "feature_columns det' = feature_columns det"
    if "train_models L0 det0 df0 labels0 = (det, Inr ())"
  proof -
    have "feature_columns det = get_feature_importance_columns"
      using train_models_success [OF that] by auto
    then show ?thesis using train_models_raises [OF assms] by auto
  qed
  have a: "is_trained det' = is_trained det \<and> thresholds det' = thresholds det
      \<and> engineer det' = engineer det
      \<and> feature_columns det' = get_feature_importance_columns"
    using train_models_raises [OF assms] by auto
  have n: "map fst (models det') = map fst (models det)"
    using train_models_raises [OF assms] by (auto dest: train_loop_same_names)
  have b: "training_columns features_df = [] \<longrightarrow>
      scaler det' = scaler det \<and> models det' = models det"
    using train_models_raises [OF assms] by auto
  have c: "(scaler_fit L ?V = Inl e \<and> scaler det' = None \<and> models det' = models det)
          \<or> (\<exists>fitted. scaler_fit L ?V = Inr fitted \<and> scaler det' = Some fitted
              \<and> ((scaler_transform L fitted ?V = Inl e \<and> models det' = models det)
                \<or> (\<exists>X pre pre' name m rest.
                      scaler_transform L fitted ?V = Inr X
                    \<and> models det = pre @ (name, m) # rest
                    \<and> models det' = pre' @ (name, m) # rest
                    \<and> fit_model L X labels name m = Inl e
                    \<and> list_all2
                        (\<lambda>a b. fst b = fst a
                           \<and> fit_model L X labels (fst a) (snd a) = Inr (snd b))
                        pre pre')))"
    if f: "training_columns features_df \<noteq> []"
  proof -
    consider
      (fit) "scaler_fit L ?V = Inl e"
        "det' = det \<lparr> feature_columns := get_feature_importance_columns, scaler := None \<rparr>"
    | (transform) fitted where "scaler_fit L ?V = Inr fitted"
        "scaler_transform L fitted ?V = Inl e"
        "det' = det \<lparr> feature_columns := get_feature_importance_columns,
                       scaler := Some fitted \<rparr>"
    | (loop) fitted X ms where "scaler_fit L ?V = Inr fitted"
        "scaler_transform L fitted ?V = Inr X"
        "train_loop L X labels (models det) = (ms, Inl e)"
        "det' = det \<lparr> feature_columns := get_feature_importance_columns,
                       scaler := Some fitted, models := ms \<rparr>"
      using train_models_raises [OF assms] f by blast
    then show ?thesis
    proof cases
      case fit
      then show ?thesis by simp
    next
      case transform
      then show ?thesis by simp
    next
      case loop
      obtain pre pre' name m rest where
        p: "models det = pre @ (name, m) # rest" "ms = pre' @ (name, m) # rest"
        "fit_model L X labels name m = Inl e"
        "list_all2 (\<lambda>a b. fst b = fst a \<and> fit_model L X labels (fst a) (snd a) = Inr (snd b))
           pre pre'"
        using train_loop_raises [OF loop(3)] by blast
      have q: "models det' = pre' @ (name, m) # rest"
        using loop(4) p(2) by simp
      from p(1) q p(3) p(4) loop(2) have "\<exists>X pre pre' name m rest.
                      scaler_transform L fitted ?V = Inr X
                    \<and> models det = pre @ (name, m) # rest
                    \<and> models det' = pre' @ (name, m) # rest
                    \<and> fit_model L X labels name m = Inl e
                    \<and> list_all2
                        (\<lambda>a b. fst b = fst a
                           \<and> fit_model L X labels (fst a) (snd a) = Inr (snd b))
                        pre pre'"
        by blast
      moreover have "scaler det' = Some fitted" using loop(4) by simp
      ultimately show ?thesis using loop(1) by blast
    qed
  qed
  from a t n b c show ?thesis by blast
qed

lemma sample_trained_training:
  "train_models sample_lib sample_detector sample_training [0, 1] = (sample_trained, Inr ())"
proof -
  have "train_loop sample_lib [[- 250], [250]] [0, 1] (models sample_detector)
      = (models sample_trained, Inr ())"
    by (simp add: sample_detector_def new_detector_def fit_model_def normal_rows_def
        and_then_def sample_lib_def sample_fit_classifier_def sample_fit_novelty_def
        sample_trained_def)
  then show ?thesis
    using sample_values sample_scaling sample_columns
    by (simp add: train_models_def Let_def training_columns_def [symmetric]
        sample_lib_def sample_trained_def sample_detector_def new_detector_def)
qed

lemma sample_no_columns:
  "train_models sample_lib sample_trained [] []
   = (sample_trained, Inl (ValueError ''No feature columns available for training''))"
  by (simp add: train_models_def Let_def has_column_def sample_trained_def)

lemma sample_revalues:
  "values_of sample_retraining (training_columns sample_retraining)
     = [[Num 0], [Num 10], [Num 20]]
   \<and> training_columns sample_retraining \<noteq> []"
  by (simp add: values_of_def training_columns_def sample_retraining_def has_column_def
      get_feature_importance_columns_def len_df_def upt_rec)

lemma sample_rescaling:
  "sample_scaler_fit [[Num 0], [Num 10], [Num 20]] = Inr ([10], [1])
   \<and> sample_scaler_transform ([10], [1]) [[Num 0], [Num 10], [Num 20]]
       = Inr [[- 10], [0], [10]]"
  by (simp add: sample_scaler_fit_def sample_scaler_transform_def mean_of_def cell_value_def)

lemma sample_retrained_training:
  "train_models sample_lib sample_trained sample_retraining [0, 0, 1 / 2]
   = (sample_retrained, Inl (ValueError ''Unknown label type''))"
proof -
  have "train_loop sample_lib [[- 10], [0], [10]] [0, 0, 1 / 2] (models sample_trained)
      = (models sample_retrained, Inl (ValueError ''Unknown label type''))"
    by (simp add: sample_trained_def sample_retrained_def fit_model_def normal_rows_def
        and_then_def sample_lib_def sample_fit_classifier_def sample_fit_novelty_def
        sample_detector_def new_detector_def)
  then show ?thesis
    using sample_revalues sample_rescaling
    by (simp add: train_models_def Let_def training_columns_def [symmetric]
        sample_lib_def sample_trained_def sample_retrained_def)
qed

text \<open>
  A trained detector retrained on a table with no feature column, and retrained on a batch
  of three rows whose labels the classifier refuses: the scaler and the two novelty
  detectors hold the fits on the new batch, the classifier is the one of the first
  training.
\<close>

theorem train_models_failure_state_witness:
  "train_models sample_lib sample_trained [] []
     = (sample_trained, Inl (ValueError ''No feature columns available for training''))
   \<and> train_models sample_lib sample_trained sample_retraining [0, 0, 1 / 2]
     = (sample_retrained, Inl (ValueError ''Unknown label type''))
   \<and> is_trained sample_retrained
   \<and> feature_columns sample_retrained = feature_columns sample_trained
   \<and> map fst (models sample_retrained) = [''isolation_forest'', ''svm'', ''random_forest'']
   \<and> scaler sample_retrained = Some ([10], [1])
   \<and> models sample_retrained
       = [(''isolation_forest'', Fitted (sample_novelty [[- 10], [0]])),
          (''svm'', Fitted (sample_novelty [[- 10], [0]])),
          (''random_forest'', Fitted (sample_forest [0, 1]))]"
proof -
  have c: "training_columns [] = []"
    by (simp add: training_columns_def has_column_def)
  have s: "is_trained sample_trained
      \<and> map fst (models sample_trained) = [''isolation_forest'', ''svm'', ''random_forest'']"
    by (simp add: sample_trained_def)
  have m: "scaler sample_retrained = Some ([10], [1])
      \<and> models sample_retrained
         = [(''isolation_forest'', Fitted (sample_novelty [[- 10], [0]])),
            (''svm'', Fitted (sample_novelty [[- 10], [0]])),
            (''random_forest'', Fitted (sample_forest [0, 1]))]"
    by (simp add: sample_retrained_def)
  show ?thesis
    using train_models_failure_state [of sample_lib sample_trained "[]" "[]" sample_trained
        "ValueError ''No feature columns available for training''"
        sample_lib sample_detector sample_training "[0, 1]"]
      train_models_failure_state [of sample_lib sample_trained sample_retraining
        "[0, 0, 1 / 2]" sample_retrained "ValueError ''Unknown label type''"
        sample_lib sample_detector sample_training "[0, 1]"]
      sample_no_columns sample_retrained_training sample_trained_training c s m
    by simp
qed

lemma sample_decisions: "sample_novelty [[- 10], [0]] \<noteq> sample_novelty [[- 250]]"
proof
  assume "sample_novelty [[- 10], [0]] = sample_novelty [[- 250]]"
  then have "sample_decision 2 = sample_decision 1"
    by (simp add: sample_novelty_def)
  then have "sample_decision 2 [[0]] = sample_decision 1 [[0]]"
    by simp
  then show False by (simp add: sample_decision_def)
qed

text \<open>
  Claim C2 as stated fails at this retraining of a trained detector: the call raises, and
  after it the scaler and the models differ from those before the call.
\<close>

theorem train_models_not_atomic_counterexample:
  "is_trained sample_trained
   \<and> train_models sample_lib sample_trained sample_retraining [0, 0, 1 / 2]
     = (sample_retrained, Inl (ValueError ''Unknown label type''))
   \<and> scaler sample_trained = Some ([650], [1])
   \<and> scaler sample_retrained = Some ([10], [1])
   \<and> scaler sample_retrained \<noteq> scaler sample_trained
   \<and> models sample_retrained \<noteq> models sample_trained"
  using sample_retrained_training sample_decisions
  by (simp add: sample_trained_def sample_retrained_def)

subsection \<open>Prediction before and after training\<close>

lemma train_loop_forest:
  "train_loop L X labels ms = (ms', Inr ()) \<Longrightarrow> (''random_forest'', m) \<in> set ms
   \<Longrightarrow> \<exists>est. fit_classifier L X labels = Inr est \<and> (''random_forest'', Fitted est) \<in> set ms'"
proof (induction ms arbitrary: ms')
  case Nil
  then show ?case by simp
next
  case (Cons nm ms)
  obtain n k where nm: "nm = (n, k)" by (cases nm)
  from Cons.prems(1) obtain k' rest' where
    f: "fit_model L X labels n k = Inr k'" and
    r: "train_loop L X labels ms = (rest', Inr ())" and
    e: "ms' = (n, k') # rest'"
    unfolding nm by (auto split: sum.splits prod.splits)
  show ?case
  proof (cases "(''random_forest'', m) = (n, k)")
    case True
    then obtain est where "fit_classifier L X labels = Inr est \<and> k' = Fitted est"
      using f by (auto simp: fit_model_def and_then_def split: sum.splits)
    then show ?thesis using True e by auto
  next
    case False
    then have "(''random_forest'', m) \<in> set ms" using Cons.prems(2) nm by auto
    then show ?thesis using Cons.IH [OF r] e by auto
  qed
qed

lemma single_class:
  assumes "list_all (\<lambda>l. l = 0) (labels :: real list)"
  shows "card (set labels) \<le> 1"
proof -
  have "set labels \<subseteq> {0}" using assms by (auto simp: list_all_iff)
  then show ?thesis using card_mono [of "{0 :: real}" "set labels"] by simp
qed

lemma model_probability_single_class:
  assumes "proba_per_class L" and "fit_classifier L X labels = Inr est"
    and "list_all (\<lambda>l. l = 0) labels"
  shows "\<exists>e. model_probability Y (''random_forest'', Fitted est) = Inl e"
proof -
  obtain p where p: "predict_proba est = Some p"
    and c: "\<And>X' columns. p X' = Inr columns \<Longrightarrow> length columns = card (set labels)"
    using assms(1,2) unfolding proba_per_class_def by blast
  show ?thesis
  proof (cases "p Y")
    case (Inl e)
    then show ?thesis using p by (simp add: model_probability_def and_then_def)
  next
    case (Inr columns)
    then have "length columns \<le> 1"
      using c [of Y columns] single_class [OF assms(3)] by simp
    then have "py_index columns 1 = Inl IndexError"
      by (simp add: py_index_def)
    then show ?thesis using p Inr by (simp add: model_probability_def and_then_def)
  qed
qed

text \<open>
  Claim C3 fails in the code. The prediction of an untrained detector does raise, with the
  \<^verbatim>\<open>ValueError\<close> of line 108. But a prediction after a training that succeeded can raise as
  well: when every label of the training is 0, the classifier is fitted on one class, its
  \<^verbatim>\<open>predict_proba\<close> has one column, and \<^verbatim>\<open>[:, 1]\<close> on line 119 raises. Then the trained
  detector returns no probability for any feature table, the training table included.
\<close>

theorem predict_cme_probability_single_class:
  "(\<not> is_trained det \<longrightarrow>
      predict_cme_probability L det features_df
        = Inl (ValueError ''Models must be trained before prediction''))
   \<and> (train_models L det features_df labels = (det', Inr ())
      \<and> (''random_forest'', m) \<in> set (models det)
      \<and> list_all (\<lambda>l. l = 0) labels
      \<and> proba_per_class L \<longrightarrow>
        is_trained det' \<and> (\<forall>df. \<exists>e. predict_cme_probability L det' df = Inl e))"
proof (intro conjI impI)
  assume "\<not> is_trained det"
  then show "predict_cme_probability L det features_df
        = Inl (ValueError ''Models must be trained before prediction'')"
    by (simp add: predict_cme_probability_def)
next
  assume h: "train_models L det features_df labels = (det', Inr ())
      \<and> (''random_forest'', m) \<in> set (models det)
      \<and> list_all (\<lambda>l. l = 0) labels
      \<and> proba_per_class L"
  then show "is_trained det'"
    using train_models_success [of L det features_df labels det'] by auto
next
  assume h: "train_models L det features_df labels = (det', Inr ())
      \<and> (''random_forest'', m) \<in> set (models det)
      \<and> list_all (\<lambda>l. l = 0) labels
      \<and> proba_per_class L"
  obtain fitted X ms where
    t: "train_loop L X labels (models det) = (ms, Inr ())" and
    d: "det' = det \<lparr> feature_columns := get_feature_importance_columns,
                     scaler := Some fitted, models := ms, is_trained := True \<rparr>"
    using train_models_success [of L det features_df labels det'] h by blast
  obtain est where
    f: "fit_classifier L X labels = Inr est" and u: "(''random_forest'', Fitted est) \<in> set ms"
    using train_loop_forest [OF t] h by blast
  have "\<exists>e. predict_cme_probability L det' df = Inl e" for df
  proof (cases "scaler_transform L fitted
                  (values_of df (filter (\<lambda>c. has_column c df) get_feature_importance_columns))")
    case (Inl e)
    then show ?thesis by (simp add: d predict_cme_probability_def and_then_def)
  next
    case (Inr Y)
    obtain e1 where "model_probability Y (''random_forest'', Fitted est) = Inl e1"
      using model_probability_single_class [OF _ f] h by blast
    then obtain e' where "for_each (model_probability Y) ms = Inl e'"
      using for_each_error [OF u] by blast
    then show ?thesis using Inr by (simp add: d predict_cme_probability_def and_then_def)
  qed
  then show "\<forall>df. \<exists>e. predict_cme_probability L det' df = Inl e" by blast
qed

lemma sample_proba_per_class: "proba_per_class sample_lib"
  by (auto simp: proba_per_class_def sample_lib_def sample_fit_classifier_def
      sample_forest_def length_remdups_card_conv split: if_splits)

lemma sample_single_class_training:
  "train_models sample_lib sample_detector sample_training [0, 0]
   = (sample_single_class, Inr ())"
proof -
  have "train_loop sample_lib [[- 250], [250]] [0, 0] (models sample_detector)
      = (models sample_single_class, Inr ())"
    by (simp add: sample_detector_def new_detector_def fit_model_def normal_rows_def
        and_then_def sample_lib_def sample_fit_classifier_def sample_fit_novelty_def
        sample_single_class_def)
  then show ?thesis
    using sample_values sample_scaling sample_columns
    by (simp add: train_models_def Let_def training_columns_def [symmetric]
        sample_lib_def sample_single_class_def sample_detector_def new_detector_def)
qed

lemma sample_single_class_prediction:
  "predict_cme_probability sample_lib sample_single_class sample_training = Inl IndexError"
  using sample_values sample_scaling
  by (simp add: predict_cme_probability_def Let_def training_columns_def [symmetric]
      sample_single_class_def sample_lib_def and_then_def model_probability_def
      sample_novelty_def sample_decision_def sample_forest_def py_index_def)

text \<open>
  The sample detector, new and after a training on two rows labelled 0: the training
  succeeds, both novelty detectors and the classifier are fitted, and the prediction on
  the training batch raises \<^verbatim>\<open>IndexError\<close>.
\<close>

theorem predict_cme_probability_single_class_witness:
  "predict_cme_probability sample_lib sample_detector sample_training
     = Inl (ValueError ''Models must be trained before prediction'')
   \<and> train_models sample_lib sample_detector sample_training [0, 0]
     = (sample_single_class, Inr ())
   \<and> is_trained sample_single_class
   \<and> (\<forall>df. \<exists>e. predict_cme_probability sample_lib sample_single_class df = Inl e)
   \<and> predict_cme_probability sample_lib sample_single_class sample_training = Inl IndexError"
  using predict_cme_probability_single_class
      [of sample_detector sample_lib sample_training "[0, 0]" sample_single_class Unfitted]
    sample_single_class_training sample_single_class_prediction sample_proba_per_class
  by (simp add: sample_detector_def new_detector_def)

end
